theory Spec2Isabelle
  imports Main "HOL-Library.AList"
begin

section \<open>Data model\<close>

text \<open>
  The exceptions that leave \<^verbatim>\<open>check_data\<close> and \<^verbatim>\<open>load_data\<close>. The specification's
  \<open>TypeKind\<close> is Python's \<^verbatim>\<open>TypeError\<close>, its \<open>ConstraintKind\<close> is \<^verbatim>\<open>AssertionError\<close>.
  \<^verbatim>\<open>KeyError\<close> is what \<^verbatim>\<open>dataframe[name]\<close> raises for a name that is no column; it
  carries the name.
\<close>

datatype error = TypeError string | AssertionError string | KeyError string

text \<open>
  A column (a pandas \<^verbatim>\<open>Series\<close>) either has a numeric dtype, and then holds numbers of
  the type \<open>'a\<close>, or has dtype \<^verbatim>\<open>object\<close> and holds strings. The numbers and their
  \<open>+\<close> and \<open>-\<close> stay abstract (a type parameter): pandas is not part of the repository.
\<close>

datatype 'a column = Numeric "'a list" | Object "string list"

text \<open>
  A table (a pandas \<^verbatim>\<open>DataFrame\<close>): the columns in their order, each under its name.
  The names of a table are taken to be unique, as the specification has them; a lookup
  reads the first column of a name.
\<close>

type_synonym 'a frame = "(string \<times> 'a column) list"

definition columns :: "'a frame \<Rightarrow> string list" where
  "columns df = map fst df"

text \<open>\<^verbatim>\<open>dataframe[name]\<close>: the column, or \<^verbatim>\<open>KeyError\<close>.\<close>

definition getitem :: "'a frame \<Rightarrow> string \<Rightarrow> error + 'a column" where
  "getitem df name = (case map_of df name of None \<Rightarrow> Inl (KeyError name) | Some c \<Rightarrow> Inr c)"

text \<open>
  \<^verbatim>\<open>dataframe[name] = series\<close>: a column of that name is replaced where it stands, a new
  name is appended as the last column.
\<close>

definition setitem :: "'a frame \<Rightarrow> string \<Rightarrow> 'a column \<Rightarrow> 'a frame" where
  "setitem df name c = AList.update name c df"

text \<open>\<^verbatim>\<open>ptypes.is_numeric_dtype(series)\<close>.\<close>

fun is_numeric_dtype :: "'a column \<Rightarrow> bool" where
  "is_numeric_dtype (Numeric xs) = True"
| "is_numeric_dtype (Object vs) = False"

text \<open>
  \<^verbatim>\<open>series.astype(float)\<close>, with the conversion of one value, \<open>to_float\<close>, a parameter
  (\<open>None\<close> where Python's \<^verbatim>\<open>float\<close> raises \<^verbatim>\<open>ValueError\<close>). The result \<open>None\<close> is
  the \<^verbatim>\<open>ValueError\<close> that \<^verbatim>\<open>check_data\<close> catches.
\<close>

fun astype_float :: "(string \<Rightarrow> 'a option) \<Rightarrow> 'a column \<Rightarrow> 'a column option" where
  "astype_float to_float (Numeric xs) = Some (Numeric xs)"
| "astype_float to_float (Object vs) = map_option Numeric (those (map to_float vs))"

text \<open>
  Row-aligned arithmetic of two columns of one table. Between columns that are not both
  numeric, \<open>-\<close> raises and \<open>+\<close> is defined on two string columns only (concatenation).
\<close>

fun series_sub :: "'a::minus column \<Rightarrow> 'a column \<Rightarrow> error + 'a column" where
  "series_sub (Numeric xs) (Numeric ys) = Inr (Numeric (map2 (-) xs ys))"
| "series_sub c d = Inl (TypeError ''unsupported operand type(s) for -'')"

fun series_add :: "'a::plus column \<Rightarrow> 'a column \<Rightarrow> error + 'a column" where
  "series_add (Numeric xs) (Numeric ys) = Inr (Numeric (map2 (+) xs ys))"
| "series_add (Object vs) (Object ws) = Inr (Object (map2 (@) vs ws))"
| "series_add c d = Inl (TypeError ''unsupported operand type(s) for +'')"

text \<open>Sequencing of steps that may raise: the first exception ends the call.\<close>

definition thenE :: "error + 'b \<Rightarrow> ('b \<Rightarrow> error + 'c) \<Rightarrow> error + 'c" where
  "thenE r f = (case r of Inl e \<Rightarrow> Inl e | Inr x \<Rightarrow> f x)"

section \<open>\<^verbatim>\<open>check_data\<close> (arg\_validators.py)\<close>

subsection \<open>Numeric coercion (lines 54 to 79)\<close>

text \<open>
  One block of the form
  \<^verbatim>\<open>if not is_numeric_dtype(df[c]): try: df[c] = df[c].astype(float) except ValueError: raise TypeError(msg)\<close>.
  The lookup \<^verbatim>\<open>df[c]\<close> stands outside the \<^verbatim>\<open>try\<close>, so its \<^verbatim>\<open>KeyError\<close> is not caught.
\<close>

definition coerce_numeric ::
  "(string \<Rightarrow> 'a option) \<Rightarrow> string \<Rightarrow> 'a frame \<Rightarrow> string \<Rightarrow> error + 'a frame" where
  "coerce_numeric to_float msg df c =
     thenE (getitem df c) (\<lambda>s.
       if is_numeric_dtype s then Inr df
       else (case astype_float to_float s of
               None \<Rightarrow> Inl (TypeError msg)
             | Some s' \<Rightarrow> Inr (setitem df c s')))"

text \<open>The same block under \<^verbatim>\<open>if c is not None\<close>.\<close>

fun coerce_optional ::
  "(string \<Rightarrow> 'a option) \<Rightarrow> string \<Rightarrow> 'a frame \<Rightarrow> string option \<Rightarrow> error + 'a frame" where
  "coerce_optional to_float msg df None = Inr df"
| "coerce_optional to_float msg df (Some c) = coerce_numeric to_float msg df c"

definition coerce_all ::
  "(string \<Rightarrow> 'a option) \<Rightarrow> 'a frame \<Rightarrow> string \<Rightarrow> string option \<Rightarrow> string option \<Rightarrow>
   string option \<Rightarrow> error + 'a frame" where
  "coerce_all to_float df estimate moerror ll hl =
     thenE (coerce_numeric to_float ''Estimates should be float or int'' df estimate) (\<lambda>df1.
     thenE (coerce_optional to_float ''Margin of error values should be float or int'' df1 moerror) (\<lambda>df2.
     thenE (coerce_optional to_float ''CI lowerlimit values should be float or int'' df2 ll) (\<lambda>df3.
     coerce_optional to_float ''CI higherlimit values should be float or int'' df3 hl)))"

subsection \<open>Either moerror or ll, hl (lines 85 to 99)\<close>

definition msg_need_ll_hl :: string where
  \<open>msg_need_ll_hl = ''If "moerror" is not provided, then "ll" and "hl" must be provided.''\<close>

definition msg_need_moerror :: string where
  \<open>msg_need_moerror = ''If "ll, hl" is not provided, then "moerror" must be provided.''\<close>

definition check_ci_source :: "string option \<Rightarrow> string option \<Rightarrow> string option \<Rightarrow> error + unit" where
  "check_ci_source moerror ll hl =
     thenE (if moerror = None
            then (if ll \<noteq> None \<and> hl \<noteq> None then Inr () else Inl (AssertionError msg_need_ll_hl))
            else Inr ()) (\<lambda>_.
     if ll = None \<or> hl = None
     then (if moerror \<noteq> None then Inr () else Inl (AssertionError msg_need_moerror))
     else Inr ())"

subsection \<open>Creating the missing columns (lines 101 to 109)\<close>

text \<open>\<^verbatim>\<open>dataframe[c]\<close> for an optional argument: the key \<^verbatim>\<open>None\<close> is no column.\<close>

fun getitem_opt :: "'a frame \<Rightarrow> string option \<Rightarrow> error + 'a column" where
  "getitem_opt df None = Inl (KeyError ''None'')"
| "getitem_opt df (Some c) = getitem df c"

definition derive ::
  "'a::{plus,minus} frame \<Rightarrow> string \<Rightarrow> string option \<Rightarrow> string option \<Rightarrow> string option \<Rightarrow>
   error + 'a frame" where
  "derive df estimate moerror ll hl =
     thenE (if moerror = None
            then thenE (getitem df estimate) (\<lambda>e. thenE (getitem_opt df ll) (\<lambda>l.
                 thenE (series_sub e l) (\<lambda>s. Inr (setitem df ''moerror'' s))))
            else Inr df) (\<lambda>df1.
     thenE (if ll = None
            then thenE (getitem df1 estimate) (\<lambda>e. thenE (getitem_opt df1 moerror) (\<lambda>m.
                 thenE (series_sub e m) (\<lambda>s. Inr (setitem df1 ''ll'' s))))
            else Inr df1) (\<lambda>df2.
     if hl = None
     then thenE (getitem df2 estimate) (\<lambda>e. thenE (getitem_opt df2 moerror) (\<lambda>m.
          thenE (series_add e m) (\<lambda>s. Inr (setitem df2 ''hl'' s))))
     else Inr df2))"

subsection \<open>Annotations (lines 114 to 178)\<close>

text \<open>
  An annotation argument is a list or tuple of strings (\<open>Seq\<close>), or some value that
  \<^verbatim>\<open>ptypes.is_list_like\<close> rejects, such as a single string (\<open>Scalar\<close>).
\<close>

datatype annot = Seq "string list" | Scalar string

text \<open>
  The list-like check of one argument (lines 114 to 136). Past it, the argument is
  known to be a sequence, and the later steps read its entries.
\<close>

fun list_like :: "string \<Rightarrow> annot option \<Rightarrow> error + string list option" where
  "list_like name None = Inr None"
| "list_like name (Some (Seq xs)) = Inr (Some xs)"
| "list_like name (Some (Scalar s)) = Inl (TypeError (name @ '' should be list-like.''))"

text \<open>The length check of a pair of arguments (lines 142 to 155).\<close>

fun same_length :: "string \<Rightarrow> string list option \<Rightarrow> string list option \<Rightarrow> error + unit" where
  "same_length msg (Some xs) (Some hs) =
     (if length xs = length hs then Inr () else Inl (AssertionError msg))"
| "same_length msg a h = Inr ()"

definition acceptable_annotations :: "string list" where
  "acceptable_annotations = [''ci_range'', ''est_ci'', ''formatted_pval'']"

text \<open>
  The loop \<^verbatim>\<open>for col in addannote\<close> (lines 166 to 178): the first entry that is neither
  a column nor an acceptable annotation raises.
\<close>

fun check_members :: "string list \<Rightarrow> string list \<Rightarrow> error + unit" where
  "check_members cols [] = Inr ()"
| "check_members cols (col # rest) =
     (if col \<in> set cols \<or> col \<in> set acceptable_annotations
      then check_members cols rest
      else Inl (AssertionError (''the field '' @ col @ '' is not found in dataframe.'')))"

fun check_members_opt :: "string list \<Rightarrow> string list option \<Rightarrow> error + unit" where
  "check_members_opt cols None = Inr ()"
| "check_members_opt cols (Some xs) = check_members cols xs"

definition check_annotations ::
  "string list \<Rightarrow> annot option \<Rightarrow> annot option \<Rightarrow> annot option \<Rightarrow> annot option \<Rightarrow>
   error + (string list option \<times> string list option)" where
  "check_annotations cols addannote annoteheaders rightannote right_annoteheaders =
     thenE (list_like ''addannote'' addannote) (\<lambda>a.
     thenE (list_like ''annoteheaders'' annoteheaders) (\<lambda>ah.
     thenE (list_like ''rightannote'' rightannote) (\<lambda>r.
     thenE (list_like ''right_annoteheaders'' right_annoteheaders) (\<lambda>rh.
     thenE (same_length ''addannote and annoteheaders should have same length.'' a ah) (\<lambda>_.
     thenE (same_length ''rightannote and right_annoteheaders should have same length.'' r rh) (\<lambda>_.
     thenE (check_members_opt cols a) (\<lambda>_.
     thenE (check_members_opt cols r) (\<lambda>_.
     Inr (a, r)))))))))"

subsection \<open>Warnings (lines 184 to 194)\<close>

definition warn_addannote :: "string \<Rightarrow> string" where
  \<open>warn_addannote v =
     v @ '' is a variable is already printed. Specifying '' @ v @
     '' in "addannote" will lead to duplicate printing of '' @ v @ ''.''\<close>

definition warn_printed :: "string \<Rightarrow> string" where
  "warn_printed v = v @ '' is a variable is already printed.''"

definition warn_rightannote :: "string \<Rightarrow> string" where
  \<open>warn_rightannote v =
     v @ '' is a variable is already printed. Specifying '' @ v @
     '' in "rightannote" will lead to duplicate printing of '' @ v @ ''.''\<close>

text \<open>The calls of \<^verbatim>\<open>warnings.warn\<close>, in their order.\<close>

fun in_opt :: "string \<Rightarrow> string list option \<Rightarrow> bool" where
  "in_opt v None = False"
| "in_opt v (Some xs) = (v \<in> set xs)"

definition redundancy_warnings :: "string \<Rightarrow> string list option \<Rightarrow> string list option \<Rightarrow> string list" where
  "redundancy_warnings varlabel a r =
     (if in_opt varlabel a then [warn_addannote varlabel] else []) @
     (if in_opt varlabel r then [warn_printed varlabel, warn_rightannote varlabel] else [])"

subsection \<open>The whole function\<close>

text \<open>
  The result is the exception, or the table together with the warnings emitted (the
  calls of \<^verbatim>\<open>warnings.warn\<close> all stand after the last check, so a call that fails has
  emitted none). A call that fails leaves the caller's table as the assignments before
  the failure have made it; the model returns the exception alone. The test
  \<^verbatim>\<open>isinstance(dataframe, DataFrame)\<close> of line 51 holds by the type of \<open>df\<close>.
\<close>

definition check_data ::
  "(string \<Rightarrow> 'a option) \<Rightarrow> 'a::{plus,minus} frame \<Rightarrow> string \<Rightarrow> string \<Rightarrow> string option \<Rightarrow>
   string option \<Rightarrow> string option \<Rightarrow> annot option \<Rightarrow> annot option \<Rightarrow> annot option \<Rightarrow>
   annot option \<Rightarrow> error + ('a frame \<times> string list)" where
  "check_data to_float df estimate varlabel moerror ll hl
      addannote annoteheaders rightannote right_annoteheaders =
     thenE (coerce_all to_float df estimate moerror ll hl) (\<lambda>df1.
     thenE (check_ci_source moerror ll hl) (\<lambda>_.
     thenE (derive df1 estimate moerror ll hl) (\<lambda>df2.
     thenE (check_annotations (columns df2) addannote annoteheaders rightannote right_annoteheaders)
       (\<lambda>(a, r). Inr (df2, redundancy_warnings varlabel a r)))))"

section \<open>\<^verbatim>\<open>load_data\<close> (dataframe\_utils.py)\<close>

text \<open>
  A name is a string of characters with code points below 256 (a \<open>char\<close> is one such
  code point). On these, \<^verbatim>\<open>str.lower\<close> maps the letters A to Z and the capital letters
  from U+00C0 to U+00DE (U+00D7, the multiplication sign, is none) to the code point
  32 above, and \<^verbatim>\<open>str.isspace\<close> holds for twelve characters; \<^verbatim>\<open>str.strip\<close> removes
  these from both ends.
\<close>

definition lower_char :: "char \<Rightarrow> char" where
  "lower_char c =
     (case map_of
             (zip (''ABCDEFGHIJKLMNOPQRSTUVWXYZ'' @
                   [CHR 0xC0, CHR 0xC1, CHR 0xC2, CHR 0xC3, CHR 0xC4, CHR 0xC5, CHR 0xC6,
                    CHR 0xC7, CHR 0xC8, CHR 0xC9, CHR 0xCA, CHR 0xCB, CHR 0xCC, CHR 0xCD,
                    CHR 0xCE, CHR 0xCF, CHR 0xD0, CHR 0xD1, CHR 0xD2, CHR 0xD3, CHR 0xD4,
                    CHR 0xD5, CHR 0xD6, CHR 0xD8, CHR 0xD9, CHR 0xDA, CHR 0xDB, CHR 0xDC,
                    CHR 0xDD, CHR 0xDE])
                  (''abcdefghijklmnopqrstuvwxyz'' @
                   [CHR 0xE0, CHR 0xE1, CHR 0xE2, CHR 0xE3, CHR 0xE4, CHR 0xE5, CHR 0xE6,
                    CHR 0xE7, CHR 0xE8, CHR 0xE9, CHR 0xEA, CHR 0xEB, CHR 0xEC, CHR 0xED,
                    CHR 0xEE, CHR 0xEF, CHR 0xF0, CHR 0xF1, CHR 0xF2, CHR 0xF3, CHR 0xF4,
                    CHR 0xF5, CHR 0xF6, CHR 0xF8, CHR 0xF9, CHR 0xFA, CHR 0xFB, CHR 0xFC,
                    CHR 0xFD, CHR 0xFE]))
             c of
        None \<Rightarrow> c
      | Some d \<Rightarrow> d)"

definition lower :: "string \<Rightarrow> string" where
  "lower s = map lower_char s"

definition isspace :: "char \<Rightarrow> bool" where
  "isspace c = (c \<in> set [CHR 0x09, CHR 0x0A, CHR 0x0B, CHR 0x0C, CHR 0x0D,
                          CHR 0x1C, CHR 0x1D, CHR 0x1E, CHR 0x1F, CHR 0x20,
                          CHR 0x85, CHR 0xA0])"

definition strip :: "string \<Rightarrow> string" where
  "strip s = rev (dropWhile isspace (rev (dropWhile isspace s)))"

text \<open>\<^verbatim>\<open>sep.join(xs)\<close>.\<close>

fun join :: "string \<Rightarrow> string list \<Rightarrow> string" where
  "join sep [] = []"
| "join sep [x] = x"
| "join sep (x # y # ys) = x @ sep @ join sep (y # ys)"

definition available_data :: "string list" where
  "available_data = [''mortality'']"

definition data_url :: "string \<Rightarrow> string" where
  "data_url name =
     ''https://raw.githubusercontent.com/lsys/pyforestplot/main/examples/data/'' @ name @ ''.csv''"

definition not_found_msg :: "string \<Rightarrow> string" where
  "not_found_msg name =
     name @ '' not found. Should be one of '' @ [CHR 0x27] @ join '', '' available_data @ [CHR 0x27]"

text \<open>
  \<^verbatim>\<open>pd.read_csv\<close> is a parameter: what the fetch of a URL returns, a table or the
  exception of the transport. The first component of the result lists the URLs that
  were fetched.
\<close>

definition load_data :: "(string \<Rightarrow> error + 't) \<Rightarrow> string \<Rightarrow> string list \<times> (error + 't)" where
  "load_data read_csv name0 =
     (let name = strip (lower name0) in
      if name \<in> set available_data
      then ([data_url name], read_csv (data_url name))
      else ([], Inl (AssertionError (not_found_msg name))))"

section \<open>Proof devices\<close>

text \<open>
  The relation between a table and the same table after some of its string columns were
  converted: the column names stand as they were, and a column is either untouched or was
  a string column whose every value converts, and now holds the converted values.
\<close>

definition coerced_from :: "(string \<Rightarrow> 'a option) \<Rightarrow> 'a frame \<Rightarrow> 'a frame \<Rightarrow> bool" where
  "coerced_from to_float df df' \<longleftrightarrow>
     columns df' = columns df \<and>
     (\<forall>k. map_of df' k = map_of df k \<or>
          (\<exists>vs. map_of df k = Some (Object vs) \<and> (\<forall>v\<in>set vs. to_float v \<noteq> None) \<and>
                map_of df' k = Some (Numeric (map (the \<circ> to_float) vs))))"

section \<open>Basic facts\<close>

lemma thenE_Inl [simp]: "thenE (Inl e) f = Inl e"
  by (simp add: thenE_def)

lemma thenE_Inr [simp]: "thenE (Inr x) f = f x"
  by (simp add: thenE_def)

lemma thenE_eq_Inr: "thenE r f = Inr y \<longleftrightarrow> (\<exists>x. r = Inr x \<and> f x = Inr y)"
  by (cases r) simp_all

lemma getitem_Some: "map_of df c = Some s \<Longrightarrow> getitem df c = Inr s"
  by (simp add: getitem_def)

lemma getitem_None: "map_of df c = None \<Longrightarrow> getitem df c = Inl (KeyError c)"
  by (simp add: getitem_def)

lemma getitem_eq_Inr: "getitem df c = Inr s \<longleftrightarrow> map_of df c = Some s"
  by (simp add: getitem_def split: option.splits)

lemma map_of_setitem: "map_of (setitem df k c) = (map_of df)(k \<mapsto> c)"
  by (simp add: setitem_def update_conv')

lemma columns_setitem:
  "columns (setitem df k c) = (if k \<in> set (columns df) then columns df else columns df @ [k])"
  by (simp add: setitem_def columns_def update_keys)

lemma in_columns: "k \<in> set (columns df) \<longleftrightarrow> map_of df k \<noteq> None"
  by (simp add: columns_def map_of_eq_None_iff)

lemma those_map:
  "those (map f vs) = (if \<forall>v\<in>set vs. f v \<noteq> None then Some (map (the \<circ> f) vs) else None)"
  by (induction vs) (auto split: option.splits)

lemma coerce_numeric_Numeric:
  "map_of df c = Some (Numeric xs) \<Longrightarrow> coerce_numeric to_float msg df c = Inr df"
  by (simp add: coerce_numeric_def getitem_Some)

lemma coerce_numeric_Object:
  "map_of df c = Some (Object vs) \<Longrightarrow>
   coerce_numeric to_float msg df c =
     (if \<forall>v\<in>set vs. to_float v \<noteq> None
      then Inr (setitem df c (Numeric (map (the \<circ> to_float) vs)))
      else Inl (TypeError msg))"
  by (simp add: coerce_numeric_def getitem_Some those_map)

lemma coerce_numeric_missing:
  "map_of df c = None \<Longrightarrow> coerce_numeric to_float msg df c = Inl (KeyError c)"
  by (simp add: coerce_numeric_def getitem_None)

lemma coerce_numeric_cases:
  assumes "coerce_numeric to_float msg df c = Inr df'"
  shows "(\<exists>xs. map_of df c = Some (Numeric xs) \<and> df' = df) \<or>
         (\<exists>vs. map_of df c = Some (Object vs) \<and> (\<forall>v\<in>set vs. to_float v \<noteq> None) \<and>
               df' = setitem df c (Numeric (map (the \<circ> to_float) vs)))"
proof (cases "map_of df c")
  case None
  with assms show ?thesis by (simp add: coerce_numeric_missing)
next
  case (Some s)
  show ?thesis
  proof (cases s)
    case (Numeric xs)
    with Some assms show ?thesis by (simp add: coerce_numeric_Numeric)
  next
    case (Object vs)
    with Some assms show ?thesis by (simp add: coerce_numeric_Object split: if_splits)
  qed
qed

subsection \<open>Numeric coercion\<close>

lemma coerced_from_refl: "coerced_from to_float df df"
  by (simp add: coerced_from_def)

lemma coerced_from_trans:
  assumes "coerced_from to_float df df'" and "coerced_from to_float df' df''"
  shows "coerced_from to_float df df''"
proof -
  have "map_of df'' k = map_of df k \<or>
        (\<exists>vs. map_of df k = Some (Object vs) \<and> (\<forall>v\<in>set vs. to_float v \<noteq> None) \<and>
              map_of df'' k = Some (Numeric (map (the \<circ> to_float) vs)))" for k
  proof -
    from assms(1) consider (same) "map_of df' k = map_of df k"
      | (coerced) vs where "map_of df k = Some (Object vs)" "\<forall>v\<in>set vs. to_float v \<noteq> None"
          "map_of df' k = Some (Numeric (map (the \<circ> to_float) vs))"
      unfolding coerced_from_def by blast
    then show ?thesis
    proof cases
      case same
      from assms(2) have "map_of df'' k = map_of df' k \<or>
          (\<exists>vs. map_of df' k = Some (Object vs) \<and> (\<forall>v\<in>set vs. to_float v \<noteq> None) \<and>
                map_of df'' k = Some (Numeric (map (the \<circ> to_float) vs)))"
        unfolding coerced_from_def by blast
      with same show ?thesis by simp
    next
      case coerced
      from assms(2) coerced(3) have "map_of df'' k = map_of df' k"
        unfolding coerced_from_def by (auto dest: spec [of _ k])
      with coerced show ?thesis by simp
    qed
  qed
  with assms show ?thesis by (simp add: coerced_from_def)
qed

lemma coerce_numeric_coerced:
  assumes "coerce_numeric to_float msg df c = Inr df'"
  shows "coerced_from to_float df df'"
  using coerce_numeric_cases [OF assms]
proof (elim disjE exE conjE)
  fix xs assume "df' = df"
  then show ?thesis by (simp add: coerced_from_refl)
next
  fix vs
  assume c: "map_of df c = Some (Object vs)" and ok: "\<forall>v\<in>set vs. to_float v \<noteq> None"
    and df': "df' = setitem df c (Numeric (map (the \<circ> to_float) vs))"
  from c have "c \<in> set (columns df)" by (simp add: in_columns)
  with c ok df' show ?thesis
    by (simp add: coerced_from_def columns_setitem map_of_setitem)
qed

lemma coerce_numeric_other:
  assumes "coerce_numeric to_float msg df c = Inr df'" and "k \<noteq> c"
  shows "map_of df' k = map_of df k"
  using coerce_numeric_cases [OF assms(1)] assms(2) by (auto simp: map_of_setitem)

lemma coerce_numeric_is_numeric:
  assumes "coerce_numeric to_float msg df c = Inr df'"
  shows "\<exists>xs. map_of df' c = Some (Numeric xs)"
  using coerce_numeric_cases [OF assms] by (auto simp: map_of_setitem)

lemma coerce_optional_coerced:
  "coerce_optional to_float msg df c = Inr df' \<Longrightarrow> coerced_from to_float df df'"
  by (cases c) (auto simp: coerced_from_refl coerce_numeric_coerced)

lemma coerce_optional_other:
  "coerce_optional to_float msg df c = Inr df' \<Longrightarrow> c \<noteq> Some k \<Longrightarrow> map_of df' k = map_of df k"
  by (cases c) (auto simp: coerce_numeric_other)

lemma coerce_optional_is_numeric:
  "coerce_optional to_float msg df (Some c) = Inr df' \<Longrightarrow> \<exists>xs. map_of df' c = Some (Numeric xs)"
  by (simp add: coerce_numeric_is_numeric)

lemma coerced_from_keeps_numeric:
  "coerced_from to_float df df' \<Longrightarrow> map_of df k = Some (Numeric xs) \<Longrightarrow>
   map_of df' k = Some (Numeric xs)"
  unfolding coerced_from_def by (metis column.distinct(1) option.inject)

lemma coerced_from_keeps_missing:
  "coerced_from to_float df df' \<Longrightarrow> map_of df' k = None \<longleftrightarrow> map_of df k = None"
  unfolding coerced_from_def by (metis option.distinct(1))

text \<open>The four blocks, one after the other.\<close>

lemma coerce_all_steps:
  assumes "coerce_all to_float df estimate moerror ll hl = Inr df4"
  obtains df1 df2 df3 where
    "coerce_numeric to_float ''Estimates should be float or int'' df estimate = Inr df1"
    "coerce_optional to_float ''Margin of error values should be float or int'' df1 moerror = Inr df2"
    "coerce_optional to_float ''CI lowerlimit values should be float or int'' df2 ll = Inr df3"
    "coerce_optional to_float ''CI higherlimit values should be float or int'' df3 hl = Inr df4"
  using assms unfolding coerce_all_def thenE_eq_Inr by blast

lemma coerce_all_coerced:
  assumes "coerce_all to_float df estimate moerror ll hl = Inr df'"
  shows "coerced_from to_float df df'"
  using assms
  by (elim coerce_all_steps)
     (blast intro: coerced_from_trans coerce_numeric_coerced coerce_optional_coerced)

lemma coerce_all_other:
  assumes "coerce_all to_float df estimate moerror ll hl = Inr df'"
    and "k \<noteq> estimate" and "moerror \<noteq> Some k" and "ll \<noteq> Some k" and "hl \<noteq> Some k"
  shows "map_of df' k = map_of df k"
  using assms(1)
proof (elim coerce_all_steps)
  fix df1 df2 df3
  assume "coerce_numeric to_float ''Estimates should be float or int'' df estimate = Inr df1"
    "coerce_optional to_float ''Margin of error values should be float or int'' df1 moerror = Inr df2"
    "coerce_optional to_float ''CI lowerlimit values should be float or int'' df2 ll = Inr df3"
    "coerce_optional to_float ''CI higherlimit values should be float or int'' df3 hl = Inr df'"
  with assms(2-) show ?thesis
    by (simp add: coerce_numeric_other coerce_optional_other)
qed

lemma coerce_all_is_numeric:
  assumes "coerce_all to_float df estimate moerror ll hl = Inr df'"
    and "k = estimate \<or> moerror = Some k \<or> ll = Some k \<or> hl = Some k"
  shows "\<exists>xs. map_of df' k = Some (Numeric xs)"
  using assms(1)
proof (elim coerce_all_steps)
  fix df1 df2 df3
  assume s: "coerce_numeric to_float ''Estimates should be float or int'' df estimate = Inr df1"
    "coerce_optional to_float ''Margin of error values should be float or int'' df1 moerror = Inr df2"
    "coerce_optional to_float ''CI lowerlimit values should be float or int'' df2 ll = Inr df3"
    "coerce_optional to_float ''CI higherlimit values should be float or int'' df3 hl = Inr df'"
  note k = coerced_from_keeps_numeric
  note c = coerce_optional_coerced
  from assms(2) consider "k = estimate" | "moerror = Some k" | "ll = Some k" | "hl = Some k"
    by blast
  then show ?thesis
  proof cases
    case 1
    with s(1) obtain xs where "map_of df1 k = Some (Numeric xs)"
      using coerce_numeric_is_numeric by blast
    then have "map_of df' k = Some (Numeric xs)"
      using k [OF c [OF s(4)]] k [OF c [OF s(3)]] k [OF c [OF s(2)]] by blast
    then show ?thesis by blast
  next
    case 2
    with s(2) obtain xs where "map_of df2 k = Some (Numeric xs)"
      using coerce_optional_is_numeric by blast
    then have "map_of df' k = Some (Numeric xs)"
      using k [OF c [OF s(4)]] k [OF c [OF s(3)]] by blast
    then show ?thesis by blast
  next
    case 3
    with s(3) obtain xs where "map_of df3 k = Some (Numeric xs)"
      using coerce_optional_is_numeric by blast
    then have "map_of df' k = Some (Numeric xs)"
      using k [OF c [OF s(4)]] by blast
    then show ?thesis by blast
  next
    case 4
    with s(4) show ?thesis
      using coerce_optional_is_numeric by blast
  qed
qed

lemma coerce_optional_Numeric:
  "(\<And>k. c = Some k \<Longrightarrow> \<exists>xs. map_of df k = Some (Numeric xs)) \<Longrightarrow>
   coerce_optional to_float msg df c = Inr df"
  by (cases c) (auto simp: coerce_numeric_Numeric)

lemma coerce_all_Numeric:
  assumes "\<exists>xs. map_of df estimate = Some (Numeric xs)"
    and "\<And>k. moerror = Some k \<Longrightarrow> \<exists>xs. map_of df k = Some (Numeric xs)"
    and "\<And>k. ll = Some k \<Longrightarrow> \<exists>xs. map_of df k = Some (Numeric xs)"
    and "\<And>k. hl = Some k \<Longrightarrow> \<exists>xs. map_of df k = Some (Numeric xs)"
  shows "coerce_all to_float df estimate moerror ll hl = Inr df"
  using assms by (auto simp: coerce_all_def coerce_numeric_Numeric coerce_optional_Numeric)

subsection \<open>Derivation and the stages of a call\<close>

lemma getitem_setitem:
  "getitem (setitem df k c) k' = (if k' = k then Inr c else getitem df k')"
  by (simp add: getitem_def map_of_setitem)

lemma derive_ll_hl:
  assumes "map_of df estimate = Some (Numeric es)" and "map_of df l = Some (Numeric ls)"
  shows "derive df estimate None (Some l) (Some h) =
           Inr (setitem df ''moerror'' (Numeric (map2 (-) es ls)))"
  using assms by (simp add: derive_def getitem_Some)

lemma derive_moerror:
  assumes "map_of df estimate = Some (Numeric es)" and "map_of df m = Some (Numeric ms)"
  shows "derive df estimate (Some m) None None =
           Inr (setitem (setitem df ''ll'' (Numeric (map2 (-) es ms))) ''hl''
                  (Numeric (map2 (+) (if estimate = ''ll'' then map2 (-) es ms else es)
                                     (if m = ''ll'' then map2 (-) es ms else ms))))"
  using assms by (simp add: derive_def getitem_Some getitem_setitem)

lemma derive_nothing: "derive df estimate (Some m) (Some l) (Some h) = Inr df"
  by (simp add: derive_def)

lemma check_ci_source_iff:
  "check_ci_source moerror ll hl = Inr () \<longleftrightarrow> moerror \<noteq> None \<or> (ll \<noteq> None \<and> hl \<noteq> None)"
  by (auto simp: check_ci_source_def)

lemma check_ci_source_fails:
  "moerror = None \<Longrightarrow> ll = None \<or> hl = None \<Longrightarrow>
   check_ci_source moerror ll hl = Inl (AssertionError msg_need_ll_hl)"
  by (auto simp: check_ci_source_def)

lemma check_annotations_None: "check_annotations cols None None None None = Inr (None, None)"
  by (simp add: check_annotations_def)

lemma redundancy_warnings_None: "redundancy_warnings v None None = []"
  by (simp add: redundancy_warnings_def)

lemma check_data_success:
  assumes "check_data to_float df estimate varlabel moerror ll hl aa ah ra rh = Inr (df', w)"
  obtains df1 a r where
    "coerce_all to_float df estimate moerror ll hl = Inr df1"
    "check_ci_source moerror ll hl = Inr ()"
    "derive df1 estimate moerror ll hl = Inr df'"
    "check_annotations (columns df') aa ah ra rh = Inr (a, r)"
    "w = redundancy_warnings varlabel a r"
  using assms unfolding check_data_def thenE_eq_Inr by (auto split: prod.splits)

lemma check_data_stages:
  assumes "coerce_all to_float df estimate moerror ll hl = Inr df1"
    and "check_ci_source moerror ll hl = Inr ()"
    and "derive df1 estimate moerror ll hl = Inr df2"
  shows "check_data to_float df estimate varlabel moerror ll hl aa ah ra rh =
           thenE (check_annotations (columns df2) aa ah ra rh)
             (\<lambda>(a, r). Inr (df2, redundancy_warnings varlabel a r))"
  using assms by (simp add: check_data_def)

text \<open>The definitions that a call on a concrete table unfolds.\<close>

lemmas evals = check_data_def coerce_all_def coerce_numeric_def getitem_def setitem_def
  check_ci_source_def derive_def check_annotations_def redundancy_warnings_def columns_def
  acceptable_annotations_def

lemma check_data_ll_hl:
  fixes df :: "'a::{plus,minus} frame"
  assumes "map_of df estimate = Some (Numeric es)" and "map_of df l = Some (Numeric ls)"
    and "map_of df h = Some (Numeric hs)"
  shows "check_data to_float df estimate varlabel None (Some l) (Some h) aa ah ra rh =
           thenE (check_annotations (columns (setitem df ''moerror'' (Numeric (map2 (-) es ls))))
                    aa ah ra rh)
             (\<lambda>(a, r). Inr (setitem df ''moerror'' (Numeric (map2 (-) es ls)),
                            redundancy_warnings varlabel a r))"
proof -
  have "coerce_all to_float df estimate None (Some l) (Some h) = Inr df"
    using assms by (intro coerce_all_Numeric) auto
  moreover have "check_ci_source None (Some l) (Some h) = Inr ()"
    by (simp add: check_ci_source_iff)
  ultimately show ?thesis
    using derive_ll_hl [OF assms(1,2), of h] by (simp add: check_data_stages)
qed

lemma check_data_moerror:
  fixes df :: "'a::{plus,minus} frame"
  assumes "map_of df estimate = Some (Numeric es)" and "map_of df m = Some (Numeric ms)"
  shows "check_data to_float df estimate varlabel (Some m) None None aa ah ra rh =
           thenE (check_annotations
                    (columns (setitem (setitem df ''ll'' (Numeric (map2 (-) es ms))) ''hl''
                       (Numeric (map2 (+) (if estimate = ''ll'' then map2 (-) es ms else es)
                                          (if m = ''ll'' then map2 (-) es ms else ms)))))
                    aa ah ra rh)
             (\<lambda>(a, r). Inr (setitem (setitem df ''ll'' (Numeric (map2 (-) es ms))) ''hl''
                       (Numeric (map2 (+) (if estimate = ''ll'' then map2 (-) es ms else es)
                                          (if m = ''ll'' then map2 (-) es ms else ms))),
                            redundancy_warnings varlabel a r))"
proof -
  have "coerce_all to_float df estimate (Some m) None None = Inr df"
    using assms by (intro coerce_all_Numeric) auto
  moreover have "check_ci_source (Some m) None None = Inr ()"
    by (simp add: check_ci_source_iff)
  ultimately show ?thesis
    using derive_moerror [OF assms] by (simp add: check_data_stages)
qed

lemma map2_minus_cancel_rows:
  fixes xs :: "'a::minus list"
  shows "list_all2 (\<lambda>x y. x - (x - y) = y) xs ys \<Longrightarrow> map2 (-) xs (map2 (-) xs ys) = ys"
  by (induction xs ys rule: list_all2_induct) simp_all

lemma check_data_after_coercion:
  "coerce_all to_float df estimate moerror ll hl = Inr df1 \<Longrightarrow>
   check_data to_float df estimate varlabel moerror ll hl aa ah ra rh =
     thenE (check_ci_source moerror ll hl) (\<lambda>_.
     thenE (derive df1 estimate moerror ll hl) (\<lambda>df2.
     thenE (check_annotations (columns df2) aa ah ra rh)
       (\<lambda>(a, r). Inr (df2, redundancy_warnings varlabel a r))))"
  by (simp add: check_data_def)

lemma check_data_coercion_fails:
  "coerce_all to_float df estimate moerror ll hl = Inl e \<Longrightarrow>
   check_data to_float df estimate varlabel moerror ll hl aa ah ra rh = Inl e"
  by (simp add: check_data_def)

lemma series_sub_Inr: "series_sub c d = Inr s \<Longrightarrow> \<exists>xs. s = Numeric xs"
  by (cases "(c, d)" rule: series_sub.cases) auto

lemma series_add_Inr: "series_add (Numeric es) d = Inr s \<Longrightarrow> \<exists>xs. s = Numeric xs"
  by (cases d) auto

text \<open>
  What a derivation that succeeds does to the table: up to three assignments of numeric
  columns, under the fixed names, one for each absent argument.
\<close>

lemma derive_structure:
  fixes df :: "'a::{plus,minus} frame"
  assumes d: "derive df estimate moerror ll hl = Inr df'"
    and e: "map_of df estimate = Some (Numeric es)"
  obtains xs ys zs d1 d2 where
    "d1 = (if moerror = None then setitem df ''moerror'' (Numeric xs) else df)"
    "d2 = (if ll = None then setitem d1 ''ll'' (Numeric ys) else d1)"
    "df' = (if hl = None then setitem d2 ''hl'' (Numeric zs) else d2)"
proof -
  from d obtain d1 d2 where
    s1: "(if moerror = None
          then thenE (getitem df estimate) (\<lambda>e. thenE (getitem_opt df ll) (\<lambda>l.
               thenE (series_sub e l) (\<lambda>s. Inr (setitem df ''moerror'' s))))
          else Inr df) = Inr d1"
    and s2: "(if ll = None
          then thenE (getitem d1 estimate) (\<lambda>e. thenE (getitem_opt d1 moerror) (\<lambda>m.
               thenE (series_sub e m) (\<lambda>s. Inr (setitem d1 ''ll'' s))))
          else Inr d1) = Inr d2"
    and s3: "(if hl = None
          then thenE (getitem d2 estimate) (\<lambda>e. thenE (getitem_opt d2 moerror) (\<lambda>m.
               thenE (series_add e m) (\<lambda>s. Inr (setitem d2 ''hl'' s))))
          else Inr d2) = Inr df'"
    unfolding derive_def thenE_eq_Inr by blast
  from s1 obtain xs where d1: "d1 = (if moerror = None then setitem df ''moerror'' (Numeric xs) else df)"
    by (auto simp: thenE_eq_Inr split: if_splits dest: series_sub_Inr)
  with e have "\<exists>es1. map_of d1 estimate = Some (Numeric es1)"
    by (simp add: map_of_setitem)
  then obtain es1 where e1: "map_of d1 estimate = Some (Numeric es1)" ..
  from s2 obtain ys where d2: "d2 = (if ll = None then setitem d1 ''ll'' (Numeric ys) else d1)"
    by (auto simp: thenE_eq_Inr split: if_splits dest: series_sub_Inr)
  with e1 have "\<exists>es2. map_of d2 estimate = Some (Numeric es2)"
    by (simp add: map_of_setitem)
  then obtain es2 where e2: "map_of d2 estimate = Some (Numeric es2)" ..
  from s3 e2 obtain zs where "df' = (if hl = None then setitem d2 ''hl'' (Numeric zs) else d2)"
    by (auto simp: thenE_eq_Inr getitem_eq_Inr split: if_splits dest: series_add_Inr)
  with d1 d2 show ?thesis by (rule that)
qed

lemma derive_other:
  fixes df :: "'a::{plus,minus} frame"
  assumes "derive df estimate moerror ll hl = Inr df'"
    and "map_of df estimate = Some (Numeric es)"
    and "moerror = None \<longrightarrow> k \<noteq> ''moerror''" and "ll = None \<longrightarrow> k \<noteq> ''ll''"
    and "hl = None \<longrightarrow> k \<noteq> ''hl''"
  shows "map_of df' k = map_of df k"
proof -
  from assms(1,2) obtain xs ys zs d1 d2 where
    "d1 = (if moerror = None then setitem df ''moerror'' (Numeric xs) else df)"
    "d2 = (if ll = None then setitem d1 ''ll'' (Numeric ys) else d1)"
    "df' = (if hl = None then setitem d2 ''hl'' (Numeric zs) else d2)"
    by (rule derive_structure)
  with assms(3-) show ?thesis by (simp add: map_of_setitem)
qed

lemma derive_keeps_numeric:
  fixes df :: "'a::{plus,minus} frame"
  assumes "derive df estimate moerror ll hl = Inr df'"
    and "map_of df estimate = Some (Numeric es)"
    and "map_of df k = Some (Numeric xs)"
  shows "\<exists>xs'. map_of df' k = Some (Numeric xs')"
proof -
  from assms(1,2) obtain us vs ws d1 d2 where
    "d1 = (if moerror = None then setitem df ''moerror'' (Numeric us) else df)"
    "d2 = (if ll = None then setitem d1 ''ll'' (Numeric vs) else d1)"
    "df' = (if hl = None then setitem d2 ''hl'' (Numeric ws) else d2)"
    by (rule derive_structure)
  with assms(3) show ?thesis by (auto simp: map_of_setitem)
qed

lemma derive_columns:
  fixes df :: "'a::{plus,minus} frame"
  assumes "derive df estimate moerror ll hl = Inr df'"
    and "map_of df estimate = Some (Numeric es)"
  shows "columns df' =
           columns df @ filter (\<lambda>n. n \<notin> set (columns df))
             ((if moerror = None then [''moerror''] else []) @
              (if ll = None then [''ll''] else []) @ (if hl = None then [''hl''] else []))"
proof -
  from assms obtain xs ys zs d1 d2 where
    "d1 = (if moerror = None then setitem df ''moerror'' (Numeric xs) else df)"
    "d2 = (if ll = None then setitem d1 ''ll'' (Numeric ys) else d1)"
    "df' = (if hl = None then setitem d2 ''hl'' (Numeric zs) else d2)"
    by (rule derive_structure)
  then show ?thesis by (simp add: columns_setitem)
qed

lemma coerce_all_Object:
  assumes c: "coerce_all to_float df estimate moerror ll hl = Inr df1"
    and k: "k = estimate \<or> moerror = Some k \<or> ll = Some k \<or> hl = Some k"
    and o: "map_of df k = Some (Object vs)"
  shows "(\<forall>v\<in>set vs. to_float v \<noteq> None) \<and>
         map_of df1 k = Some (Numeric (map (the \<circ> to_float) vs))"
proof -
  from coerce_all_is_numeric [OF c k] obtain xs where n: "map_of df1 k = Some (Numeric xs)" ..
  from coerce_all_coerced [OF c]
  have "map_of df1 k = map_of df k \<or>
        (\<exists>vs. map_of df k = Some (Object vs) \<and> (\<forall>v\<in>set vs. to_float v \<noteq> None) \<and>
              map_of df1 k = Some (Numeric (map (the \<circ> to_float) vs)))"
    unfolding coerced_from_def by blast
  with n o show ?thesis by auto
qed

lemma coerce_all_fails_estimate:
  "coerce_numeric to_float ''Estimates should be float or int'' df estimate = Inl e \<Longrightarrow>
   coerce_all to_float df estimate moerror ll hl = Inl e"
  by (simp add: coerce_all_def)

lemma coerce_all_fails_moerror:
  "coerce_numeric to_float ''Estimates should be float or int'' df estimate = Inr dfa \<Longrightarrow>
   coerce_optional to_float ''Margin of error values should be float or int'' dfa moerror = Inl e \<Longrightarrow>
   coerce_all to_float df estimate moerror ll hl = Inl e"
  by (simp add: coerce_all_def)

lemma coerce_all_fails_ll:
  "coerce_numeric to_float ''Estimates should be float or int'' df estimate = Inr dfa \<Longrightarrow>
   coerce_optional to_float ''Margin of error values should be float or int'' dfa moerror = Inr dfb \<Longrightarrow>
   coerce_optional to_float ''CI lowerlimit values should be float or int'' dfb ll = Inl e \<Longrightarrow>
   coerce_all to_float df estimate moerror ll hl = Inl e"
  by (simp add: coerce_all_def)

lemma coerce_all_fails_hl:
  "coerce_numeric to_float ''Estimates should be float or int'' df estimate = Inr dfa \<Longrightarrow>
   coerce_optional to_float ''Margin of error values should be float or int'' dfa moerror = Inr dfb \<Longrightarrow>
   coerce_optional to_float ''CI lowerlimit values should be float or int'' dfb ll = Inr dfc \<Longrightarrow>
   coerce_optional to_float ''CI higherlimit values should be float or int'' dfc hl = Inl e \<Longrightarrow>
   coerce_all to_float df estimate moerror ll hl = Inl e"
  by (simp add: coerce_all_def)

lemma coerce_numeric_bad:
  "map_of df c = Some (Object vs) \<Longrightarrow> \<exists>v\<in>set vs. to_float v = None \<Longrightarrow>
   coerce_numeric to_float msg df c = Inl (TypeError msg)"
  by (auto simp: coerce_numeric_Object)


lemma check_members_append:
  "thenE (check_members cols xs) (\<lambda>_. check_members cols ys) = check_members cols (xs @ ys)"
  by (induction xs) auto



lemma list_like_Inr:
  "list_like name x = Inr a \<longleftrightarrow>
     (x = None \<and> a = None) \<or> (\<exists>xs. x = Some (Seq xs) \<and> a = Some xs)"
  by (cases "(name, x)" rule: list_like.cases) auto

lemma check_annotations_Inr:
  assumes "check_annotations cols addannote annoteheaders rightannote right_annoteheaders = Inr (a, r)"
  shows "list_like ''addannote'' addannote = Inr a" and "list_like ''rightannote'' rightannote = Inr r"
  using assms unfolding check_annotations_def thenE_eq_Inr by auto

lemma in_opt_list_like:
  "list_like name x = Inr a \<Longrightarrow> in_opt v a \<longleftrightarrow> (\<exists>xs. x = Some (Seq xs) \<and> v \<in> set xs)"
  by (auto simp: list_like_Inr)

lemma lower_char_space: "isspace c \<Longrightarrow> lower_char c = c"
  unfolding isspace_def set_simps insert_iff empty_iff
  by (elim disjE FalseE) (simp_all add: lower_char_def)

lemma lower_spaces: "list_all isspace s \<Longrightarrow> lower s = s"
  by (induction s) (simp_all add: lower_def lower_char_space)

lemma lower_append: "lower (s @ t) = lower s @ lower t"
  by (simp add: lower_def)

lemma strip_padded:
  assumes "list_all isspace pre" and "list_all isspace suf"
    and "s \<noteq> []" and "\<not> isspace (hd s)" and "\<not> isspace (last s)"
  shows "strip (pre @ s @ suf) = s"
proof -
  from assms(1) have "dropWhile isspace (pre @ s @ suf) = dropWhile isspace (s @ suf)"
    by (simp add: dropWhile_append list_all_iff)
  also from assms(3,4) have "\<dots> = s @ suf"
    by (cases s) simp_all
  finally have 1: "dropWhile isspace (pre @ s @ suf) = s @ suf" .
  from assms(2) have "dropWhile isspace (rev suf @ rev s) = dropWhile isspace (rev s)"
    by (simp add: dropWhile_append list_all_iff)
  also from assms(3,5) have "\<dots> = rev s"
    by (cases s rule: rev_cases) simp_all
  finally show ?thesis
    by (simp add: strip_def 1)
qed

lemma load_data_cases:
  "load_data read_csv name =
     (if strip (lower name) = ''mortality''
      then ([data_url ''mortality''], read_csv (data_url ''mortality''))
      else ([], Inl (AssertionError
                  (strip (lower name) @ '' not found. Should be one of '' @ [CHR 0x27] @
                   ''mortality'' @ [CHR 0x27]))))"
  by (simp add: load_data_def Let_def available_data_def not_found_msg_def)

lemma coerce_numeric_keeps_missing:
  "coerce_numeric to_float msg df c = Inr df' \<Longrightarrow> map_of df k = None \<Longrightarrow> map_of df' k = None"
  by (simp add: coerced_from_keeps_missing [OF coerce_numeric_coerced])

lemma coerce_optional_keeps_missing:
  "coerce_optional to_float msg df c = Inr df' \<Longrightarrow> map_of df k = None \<Longrightarrow> map_of df' k = None"
  by (simp add: coerced_from_keeps_missing [OF coerce_optional_coerced])

lemma coerce_all_present:
  assumes "coerce_all to_float df estimate moerror ll hl = Inr df'"
    and "k = estimate \<or> moerror = Some k \<or> ll = Some k \<or> hl = Some k"
  shows "map_of df k \<noteq> None"
proof -
  from coerce_all_is_numeric [OF assms] have "map_of df' k \<noteq> None" by auto
  then show ?thesis
    by (simp add: coerced_from_keeps_missing [OF coerce_all_coerced [OF assms(1)]])
qed

lemma derive_only_ll:
  assumes "map_of df estimate = Some (Numeric es)" and "map_of df m = Some (Numeric ms)"
  shows "derive df estimate (Some m) None (Some h) =
           Inr (setitem df ''ll'' (Numeric (map2 (-) es ms)))"
  using assms by (simp add: derive_def getitem_Some)

lemma derive_only_hl:
  assumes "map_of df estimate = Some (Numeric es)" and "map_of df m = Some (Numeric ms)"
  shows "derive df estimate (Some m) (Some l) None =
           Inr (setitem df ''hl'' (Numeric (map2 (+) es ms)))"
  using assms by (simp add: derive_def getitem_Some)

text \<open>
  The table that a successful call returns, from the table that the numeric coercion
  has left: one case for each combination of arguments that line 85 to 99 let pass.
\<close>

lemma check_data_result:
  fixes df :: "'a::{plus,minus} frame"
  assumes ok: "check_data to_float df estimate varlabel moerror ll hl aa ah ra rh = Inr (df', w)"
  shows "\<exists>dfc es. coerce_all to_float df estimate moerror ll hl = Inr dfc \<and>
           map_of dfc estimate = Some (Numeric es) \<and>
           (moerror = None \<longrightarrow>
              (\<exists>l h ls. ll = Some l \<and> hl = Some h \<and> map_of dfc l = Some (Numeric ls) \<and>
                 df' = setitem dfc ''moerror'' (Numeric (map2 (-) es ls)))) \<and>
           (moerror \<noteq> None \<and> ll = None \<and> hl \<noteq> None \<longrightarrow>
              (\<exists>m ms. moerror = Some m \<and> map_of dfc m = Some (Numeric ms) \<and>
                 df' = setitem dfc ''ll'' (Numeric (map2 (-) es ms)))) \<and>
           (moerror \<noteq> None \<and> ll \<noteq> None \<and> hl = None \<longrightarrow>
              (\<exists>m ms. moerror = Some m \<and> map_of dfc m = Some (Numeric ms) \<and>
                 df' = setitem dfc ''hl'' (Numeric (map2 (+) es ms)))) \<and>
           (moerror \<noteq> None \<and> ll = None \<and> hl = None \<longrightarrow>
              (\<exists>m ms. moerror = Some m \<and> map_of dfc m = Some (Numeric ms) \<and>
                 df' = setitem (setitem dfc ''ll'' (Numeric (map2 (-) es ms))) ''hl''
                         (Numeric (map2 (+) (if estimate = ''ll'' then map2 (-) es ms else es)
                                            (if m = ''ll'' then map2 (-) es ms else ms))))) \<and>
           (moerror \<noteq> None \<and> ll \<noteq> None \<and> hl \<noteq> None \<longrightarrow> df' = dfc)"
proof -
  from ok obtain dfc where c: "coerce_all to_float df estimate moerror ll hl = Inr dfc"
    and s: "check_ci_source moerror ll hl = Inr ()"
    and d: "derive dfc estimate moerror ll hl = Inr df'"
    by (rule check_data_success)
  from coerce_all_is_numeric [OF c, of estimate] obtain es
    where es: "map_of dfc estimate = Some (Numeric es)" by auto
  have 1: "\<exists>l h ls. ll = Some l \<and> hl = Some h \<and> map_of dfc l = Some (Numeric ls) \<and>
                 df' = setitem dfc ''moerror'' (Numeric (map2 (-) es ls))" if "moerror = None"
  proof -
    from that s obtain l h where lh: "ll = Some l" "hl = Some h"
      by (auto simp: check_ci_source_iff)
    from coerce_all_is_numeric [OF c, of l] lh obtain ls
      where ls: "map_of dfc l = Some (Numeric ls)" by auto
    from d that lh derive_ll_hl [OF es ls, of h] show ?thesis
      using ls by simp
  qed
  have m: "\<exists>m ms. moerror = Some m \<and> map_of dfc m = Some (Numeric ms)" if "moerror \<noteq> None"
  proof -
    from that obtain m where m: "moerror = Some m" by auto
    from coerce_all_is_numeric [OF c, of m] m show ?thesis by auto
  qed
  have 2: "\<exists>m ms. moerror = Some m \<and> map_of dfc m = Some (Numeric ms) \<and>
                 df' = setitem dfc ''ll'' (Numeric (map2 (-) es ms))"
    if "moerror \<noteq> None" "ll = None" "hl \<noteq> None"
  proof -
    from m [OF that(1)] obtain m ms where mm: "moerror = Some m" "map_of dfc m = Some (Numeric ms)"
      by blast
    from that(3) obtain h where "hl = Some h" by auto
    with d that(2) mm derive_only_ll [OF es mm(2), of h] show ?thesis by simp
  qed
  have 3: "\<exists>m ms. moerror = Some m \<and> map_of dfc m = Some (Numeric ms) \<and>
                 df' = setitem dfc ''hl'' (Numeric (map2 (+) es ms))"
    if "moerror \<noteq> None" "ll \<noteq> None" "hl = None"
  proof -
    from m [OF that(1)] obtain m ms where mm: "moerror = Some m" "map_of dfc m = Some (Numeric ms)"
      by blast
    from that(2) obtain l where "ll = Some l" by auto
    with d that(3) mm derive_only_hl [OF es mm(2), of l] show ?thesis by simp
  qed
  have 4: "\<exists>m ms. moerror = Some m \<and> map_of dfc m = Some (Numeric ms) \<and>
                 df' = setitem (setitem dfc ''ll'' (Numeric (map2 (-) es ms))) ''hl''
                         (Numeric (map2 (+) (if estimate = ''ll'' then map2 (-) es ms else es)
                                            (if m = ''ll'' then map2 (-) es ms else ms)))"
    if "moerror \<noteq> None" "ll = None" "hl = None"
  proof -
    from m [OF that(1)] obtain m ms where mm: "moerror = Some m" "map_of dfc m = Some (Numeric ms)"
      by blast
    with d that(2,3) derive_moerror [OF es mm(2)] show ?thesis by simp
  qed
  have 5: "df' = dfc" if "moerror \<noteq> None" "ll \<noteq> None" "hl \<noteq> None"
    using that d by (auto simp: derive_nothing)
  show ?thesis
  proof (intro exI [of _ dfc] exI [of _ es] conjI)
    show "coerce_all to_float df estimate moerror ll hl = Inr dfc" by (rule c)
    show "map_of dfc estimate = Some (Numeric es)" by (rule es)
    show "moerror = None \<longrightarrow>
              (\<exists>l h ls. ll = Some l \<and> hl = Some h \<and> map_of dfc l = Some (Numeric ls) \<and>
                 df' = setitem dfc ''moerror'' (Numeric (map2 (-) es ls)))"
      using 1 by (intro impI)
    show "moerror \<noteq> None \<and> ll = None \<and> hl \<noteq> None \<longrightarrow>
              (\<exists>m ms. moerror = Some m \<and> map_of dfc m = Some (Numeric ms) \<and>
                 df' = setitem dfc ''ll'' (Numeric (map2 (-) es ms)))"
      using 2 by (intro impI, elim conjE)
    show "moerror \<noteq> None \<and> ll \<noteq> None \<and> hl = None \<longrightarrow>
              (\<exists>m ms. moerror = Some m \<and> map_of dfc m = Some (Numeric ms) \<and>
                 df' = setitem dfc ''hl'' (Numeric (map2 (+) es ms)))"
      using 3 by (intro impI, elim conjE)
    show "moerror \<noteq> None \<and> ll = None \<and> hl = None \<longrightarrow>
              (\<exists>m ms. moerror = Some m \<and> map_of dfc m = Some (Numeric ms) \<and>
                 df' = setitem (setitem dfc ''ll'' (Numeric (map2 (-) es ms))) ''hl''
                         (Numeric (map2 (+) (if estimate = ''ll'' then map2 (-) es ms else es)
                                            (if m = ''ll'' then map2 (-) es ms else ms))))"
      using 4 by (intro impI, elim conjE)
    show "moerror \<noteq> None \<and> ll \<noteq> None \<and> hl \<noteq> None \<longrightarrow> df' = dfc"
      using 5 by (intro impI, elim conjE)
  qed
qed

lemma frame_effect_names:
  fixes df :: "'a::{plus,minus} frame"
  shows
  "check_data to_float df estimate varlabel moerror ll hl
     addannote annoteheaders rightannote right_annoteheaders = Inr (df', w) \<longrightarrow>
     columns df' =
       columns df @ filter (\<lambda>n. n \<notin> set (columns df))
         ((if moerror = None then [''moerror''] else []) @
          (if ll = None then [''ll''] else []) @ (if hl = None then [''hl''] else [])) \<and>
     (\<forall>k. (moerror = None \<longrightarrow> k \<noteq> ''moerror'') \<and> (ll = None \<longrightarrow> k \<noteq> ''ll'') \<and>
          (hl = None \<longrightarrow> k \<noteq> ''hl'') \<longrightarrow>
          map_of df' k = map_of df k \<or>
          (k = estimate \<or> moerror = Some k \<or> ll = Some k \<or> hl = Some k) \<and>
          (\<exists>vs. map_of df k = Some (Object vs) \<and> (\<forall>v\<in>set vs. to_float v \<noteq> None) \<and>
                map_of df' k = Some (Numeric (map (the \<circ> to_float) vs)))) \<and>
     (moerror \<noteq> None \<and> ll \<noteq> None \<and> hl \<noteq> None \<longrightarrow>
        columns df' = columns df \<and>
        coerce_all to_float df estimate moerror ll hl = Inr df')"
proof
  assume "check_data to_float df estimate varlabel moerror ll hl
     addannote annoteheaders rightannote right_annoteheaders = Inr (df', w)"
  then obtain dfc where c: "coerce_all to_float df estimate moerror ll hl = Inr dfc"
    and d: "derive dfc estimate moerror ll hl = Inr df'"
    by (rule check_data_success)
  from coerce_all_is_numeric [OF c, of estimate] obtain es
    where es: "map_of dfc estimate = Some (Numeric es)" by auto
  note cf = coerce_all_coerced [OF c]
  then have cols: "columns dfc = columns df"
    by (simp add: coerced_from_def)
  have 1: "columns df' =
       columns df @ filter (\<lambda>n. n \<notin> set (columns df))
         ((if moerror = None then [''moerror''] else []) @
          (if ll = None then [''ll''] else []) @ (if hl = None then [''hl''] else []))"
    using derive_columns [OF d es] by (simp only: cols)
  have 2: "map_of df' k = map_of df k \<or>
          (k = estimate \<or> moerror = Some k \<or> ll = Some k \<or> hl = Some k) \<and>
          (\<exists>vs. map_of df k = Some (Object vs) \<and> (\<forall>v\<in>set vs. to_float v \<noteq> None) \<and>
                map_of df' k = Some (Numeric (map (the \<circ> to_float) vs)))"
    if k: "moerror = None \<longrightarrow> k \<noteq> ''moerror''" "ll = None \<longrightarrow> k \<noteq> ''ll''"
      "hl = None \<longrightarrow> k \<noteq> ''hl''" for k
  proof -
    have same: "map_of df' k = map_of dfc k"
      using k by (rule derive_other [OF d es])
    show ?thesis
    proof (cases "k = estimate \<or> moerror = Some k \<or> ll = Some k \<or> hl = Some k")
      case True
      from cf have "map_of dfc k = map_of df k \<or>
          (\<exists>vs. map_of df k = Some (Object vs) \<and> (\<forall>v\<in>set vs. to_float v \<noteq> None) \<and>
                map_of dfc k = Some (Numeric (map (the \<circ> to_float) vs)))"
        unfolding coerced_from_def by blast
      with True same show ?thesis by simp
    next
      case False
      then have "map_of dfc k = map_of df k"
        by (intro coerce_all_other [OF c]) auto
      with same show ?thesis by simp
    qed
  qed
  have 3: "columns df' = columns df \<and> coerce_all to_float df estimate moerror ll hl = Inr df'"
    if "moerror \<noteq> None" "ll \<noteq> None" "hl \<noteq> None"
  proof -
    from that d have "df' = dfc" by (auto simp: derive_nothing)
    with c cols show ?thesis by simp
  qed
  show "columns df' =
       columns df @ filter (\<lambda>n. n \<notin> set (columns df))
         ((if moerror = None then [''moerror''] else []) @
          (if ll = None then [''ll''] else []) @ (if hl = None then [''hl''] else [])) \<and>
     (\<forall>k. (moerror = None \<longrightarrow> k \<noteq> ''moerror'') \<and> (ll = None \<longrightarrow> k \<noteq> ''ll'') \<and>
          (hl = None \<longrightarrow> k \<noteq> ''hl'') \<longrightarrow>
          map_of df' k = map_of df k \<or>
          (k = estimate \<or> moerror = Some k \<or> ll = Some k \<or> hl = Some k) \<and>
          (\<exists>vs. map_of df k = Some (Object vs) \<and> (\<forall>v\<in>set vs. to_float v \<noteq> None) \<and>
                map_of df' k = Some (Numeric (map (the \<circ> to_float) vs)))) \<and>
     (moerror \<noteq> None \<and> ll \<noteq> None \<and> hl \<noteq> None \<longrightarrow>
        columns df' = columns df \<and>
        coerce_all to_float df estimate moerror ll hl = Inr df')"
  proof (rule conjI [OF 1], rule conjI)
    show "\<forall>k. (moerror = None \<longrightarrow> k \<noteq> ''moerror'') \<and> (ll = None \<longrightarrow> k \<noteq> ''ll'') \<and>
          (hl = None \<longrightarrow> k \<noteq> ''hl'') \<longrightarrow>
          map_of df' k = map_of df k \<or>
          (k = estimate \<or> moerror = Some k \<or> ll = Some k \<or> hl = Some k) \<and>
          (\<exists>vs. map_of df k = Some (Object vs) \<and> (\<forall>v\<in>set vs. to_float v \<noteq> None) \<and>
                map_of df' k = Some (Numeric (map (the \<circ> to_float) vs)))"
    proof (intro allI impI, elim conjE)
      fix k
      assume "moerror = None \<longrightarrow> k \<noteq> ''moerror''" "ll = None \<longrightarrow> k \<noteq> ''ll''"
        "hl = None \<longrightarrow> k \<noteq> ''hl''"
      then show "map_of df' k = map_of df k \<or>
          (k = estimate \<or> moerror = Some k \<or> ll = Some k \<or> hl = Some k) \<and>
          (\<exists>vs. map_of df k = Some (Object vs) \<and> (\<forall>v\<in>set vs. to_float v \<noteq> None) \<and>
                map_of df' k = Some (Numeric (map (the \<circ> to_float) vs)))"
        by (rule 2)
    qed
  next
    show "moerror \<noteq> None \<and> ll \<noteq> None \<and> hl \<noteq> None \<longrightarrow>
        columns df' = columns df \<and>
        coerce_all to_float df estimate moerror ll hl = Inr df'"
    proof (intro impI, elim conjE)
      assume "moerror \<noteq> None" "ll \<noteq> None" "hl \<noteq> None"
      then show "columns df' = columns df \<and>
        coerce_all to_float df estimate moerror ll hl = Inr df'"
        by (rule 3)
    qed
  qed
qed

section \<open>The missing columns are derived (C1)\<close>

text \<open>
  C1, as amended. On a table whose columns named by the arguments are numeric, and with
  annotation arguments that pass their checks:
  with \<open>moerror\<close> omitted and \<open>ll\<close>, \<open>hl\<close> supplied the call succeeds, the returned table
  is the input with the column "moerror" set to estimate - ll row by row, and the \<open>hl\<close>
  column is as it was unless \<open>hl\<close> is itself the column named "moerror";
  with \<open>ll\<close>, \<open>hl\<close> omitted and \<open>moerror\<close> supplied the call succeeds, the returned table
  has the column "ll" equal to estimate - moerror row by row and, unless the estimate or
  the moerror column is itself named "ll", the column "hl" equal to estimate + moerror.
\<close>

theorem derivation_of_missing_columns:
  fixes df :: "'a::{plus,minus} frame"
  shows
  "(map_of df estimate = Some (Numeric es) \<and> map_of df l = Some (Numeric ls) \<and>
    map_of df h = Some (Numeric hs) \<and>
    check_annotations (columns (setitem df ''moerror'' (Numeric (map2 (-) es ls))))
      addannote annoteheaders rightannote right_annoteheaders = Inr (a, r) \<longrightarrow>
      check_data to_float df estimate varlabel None (Some l) (Some h)
        addannote annoteheaders rightannote right_annoteheaders =
        Inr (setitem df ''moerror'' (Numeric (map2 (-) es ls)), redundancy_warnings varlabel a r) \<and>
      map_of (setitem df ''moerror'' (Numeric (map2 (-) es ls))) ''moerror'' =
        Some (Numeric (map2 (-) es ls)) \<and>
      (h \<noteq> ''moerror'' \<longrightarrow>
         map_of (setitem df ''moerror'' (Numeric (map2 (-) es ls))) h = Some (Numeric hs)))
   \<and>
   (map_of df estimate = Some (Numeric es) \<and> map_of df m = Some (Numeric ms) \<and>
    df' = setitem (setitem df ''ll'' (Numeric (map2 (-) es ms))) ''hl''
            (Numeric (map2 (+) (if estimate = ''ll'' then map2 (-) es ms else es)
                               (if m = ''ll'' then map2 (-) es ms else ms))) \<and>
    check_annotations (columns df') addannote annoteheaders rightannote right_annoteheaders
      = Inr (a, r) \<longrightarrow>
      check_data to_float df estimate varlabel (Some m) None None
        addannote annoteheaders rightannote right_annoteheaders =
        Inr (df', redundancy_warnings varlabel a r) \<and>
      map_of df' ''ll'' = Some (Numeric (map2 (-) es ms)) \<and>
      (estimate \<noteq> ''ll'' \<and> m \<noteq> ''ll'' \<longrightarrow> map_of df' ''hl'' = Some (Numeric (map2 (+) es ms))))"
proof (intro conjI impI; elim conjE)
  assume "map_of df estimate = Some (Numeric es)" "map_of df l = Some (Numeric ls)"
    "map_of df h = Some (Numeric hs)"
    "check_annotations (columns (setitem df ''moerror'' (Numeric (map2 (-) es ls))))
      addannote annoteheaders rightannote right_annoteheaders = Inr (a, r)"
  then show "check_data to_float df estimate varlabel None (Some l) (Some h)
        addannote annoteheaders rightannote right_annoteheaders =
        Inr (setitem df ''moerror'' (Numeric (map2 (-) es ls)), redundancy_warnings varlabel a r)"
    by (simp add: check_data_ll_hl)
next
  show "map_of (setitem df ''moerror'' (Numeric (map2 (-) es ls))) ''moerror'' =
        Some (Numeric (map2 (-) es ls))"
    by (simp add: map_of_setitem)
next
  assume "map_of df h = Some (Numeric hs)" "h \<noteq> ''moerror''"
  then show "map_of (setitem df ''moerror'' (Numeric (map2 (-) es ls))) h = Some (Numeric hs)"
    by (simp add: map_of_setitem)
next
  assume "map_of df estimate = Some (Numeric es)" "map_of df m = Some (Numeric ms)"
    "df' = setitem (setitem df ''ll'' (Numeric (map2 (-) es ms))) ''hl''
            (Numeric (map2 (+) (if estimate = ''ll'' then map2 (-) es ms else es)
                               (if m = ''ll'' then map2 (-) es ms else ms)))"
    "check_annotations (columns df') addannote annoteheaders rightannote right_annoteheaders
      = Inr (a, r)"
  then show "check_data to_float df estimate varlabel (Some m) None None
        addannote annoteheaders rightannote right_annoteheaders =
        Inr (df', redundancy_warnings varlabel a r)"
    by (simp add: check_data_moerror)
next
  assume "df' = setitem (setitem df ''ll'' (Numeric (map2 (-) es ms))) ''hl''
            (Numeric (map2 (+) (if estimate = ''ll'' then map2 (-) es ms else es)
                               (if m = ''ll'' then map2 (-) es ms else ms)))"
  then show "map_of df' ''ll'' = Some (Numeric (map2 (-) es ms))"
    by (simp add: map_of_setitem)
next
  assume "df' = setitem (setitem df ''ll'' (Numeric (map2 (-) es ms))) ''hl''
            (Numeric (map2 (+) (if estimate = ''ll'' then map2 (-) es ms else es)
                               (if m = ''ll'' then map2 (-) es ms else ms)))"
    "estimate \<noteq> ''ll''" "m \<noteq> ''ll''"
  then show "map_of df' ''hl'' = Some (Numeric (map2 (+) es ms))"
    by (simp add: map_of_setitem)
qed

text \<open>
  The theorem on two tables: the lower and upper limits 9, 6 and 15, 10 around the
  estimates 12, 8 give the margins 3, 2, and the margins give the limits back.
\<close>

theorem derivation_of_missing_columns_witness:
  "check_data Map.empty
     [(''var'', Object [''age'', ''sex'']), (''est'', Numeric [12, 8 :: int]),
      (''lo'', Numeric [9, 6]), (''hi'', Numeric [15, 10])]
     ''est'' ''var'' None (Some ''lo'') (Some ''hi'') None None None None =
   Inr ([(''var'', Object [''age'', ''sex'']), (''est'', Numeric [12, 8]),
         (''lo'', Numeric [9, 6]), (''hi'', Numeric [15, 10]), (''moerror'', Numeric [3, 2])], [])
   \<and>
   check_data Map.empty
     [(''var'', Object [''age'', ''sex'']), (''est'', Numeric [12, 8 :: int]),
      (''moerror'', Numeric [3, 2])]
     ''est'' ''var'' (Some ''moerror'') None None None None None None =
   Inr ([(''var'', Object [''age'', ''sex'']), (''est'', Numeric [12, 8]),
         (''moerror'', Numeric [3, 2]), (''ll'', Numeric [9, 6]), (''hl'', Numeric [15, 10])], [])"
  using
    derivation_of_missing_columns [of
      "[(''var'', Object [''age'', ''sex'']), (''est'', Numeric [12, 8 :: int]),
        (''lo'', Numeric [9, 6]), (''hi'', Numeric [15, 10])]"
      "''est''" "[12, 8]" "''lo''" "[9, 6]" "''hi''" "[15, 10]" None None None None None None
      Map.empty "''var''"
      "''xx''" "[]" "[]"]
    derivation_of_missing_columns [of
      "[(''var'', Object [''age'', ''sex'']), (''est'', Numeric [12, 8 :: int]),
        (''moerror'', Numeric [3, 2])]"
      "''est''" "[12, 8]" "''xx''" "[]" "''xx''" "[]" None None None None None None
      Map.empty "''var''"
      "''moerror''" "[3, 2]"
      "[(''var'', Object [''age'', ''sex'']), (''est'', Numeric [12, 8]),
         (''moerror'', Numeric [3, 2]), (''ll'', Numeric [9, 6]), (''hl'', Numeric [15, 10])]"]
  by (simp add: setitem_def check_annotations_def redundancy_warnings_def)

text \<open>
  C1 as it was stated fails where the upper limits stand in a column named "moerror" and
  the argument \<open>moerror\<close> is omitted: line 103 assigns the derived margins to that very
  column, and the upper limit 5 of the input is 1 in the returned table.
\<close>

theorem derived_moerror_overwrites_hl:
  "check_data Map.empty
     [(''est'', Numeric [1::int]), (''lo'', Numeric [0]), (''moerror'', Numeric [5])]
     ''est'' ''var'' None (Some ''lo'') (Some ''moerror'') None None None None =
   Inr ([(''est'', Numeric [1]), (''lo'', Numeric [0]), (''moerror'', Numeric [1])], [])"
  by (simp add: evals)

section \<open>The three relations between estimate, margin and limits (C2)\<close>

text \<open>
  C2 as it was stated fails where the supplied limits are not symmetric around the
  estimate: with the estimate 1 and the limits 0 and 5 the call succeeds, the derived
  margin is 1, and estimate + margin is 2, not the upper limit 5.
\<close>

theorem asymmetric_limits_break_hl_relation:
  "check_data Map.empty
     [(''est'', Numeric [1::int]), (''lo'', Numeric [0]), (''hi'', Numeric [5])]
     ''est'' ''var'' None (Some ''lo'') (Some ''hi'') None None None None =
   Inr ([(''est'', Numeric [1]), (''lo'', Numeric [0]), (''hi'', Numeric [5]),
         (''moerror'', Numeric [1])], [])
   \<and> map2 (+) [1::int] [1] \<noteq> [5]"
  by (simp add: evals)

text \<open>
  C2, as amended. The numbers are of any type with \<open>+\<close> and \<open>-\<close>; no law of arithmetic
  is assumed. On every table on which the call succeeds:
  with \<open>moerror\<close> alone supplied (the estimate and moerror columns not themselves named
  "ll" or "hl"), the returned table has ll = estimate - moerror and
  hl = estimate + moerror on every row, and moerror = estimate - ll provided
  \<open>e - (e - m) = m\<close> for the estimate \<open>e\<close> and the margin \<open>m\<close> of every row;
  with \<open>ll\<close> and \<open>hl\<close> supplied and \<open>moerror\<close> omitted (the estimate and ll columns not
  themselves named "moerror"), the returned table has moerror = estimate - ll on every
  row, ll = estimate - moerror provided \<open>e - (e - l) = l\<close> for the estimate \<open>e\<close> and the
  lower limit \<open>l\<close> of every row, and an upper limit column not named "moerror" that was
  numeric in the input is returned as it was, whatever estimate + moerror is;
  with all three supplied the returned table is the one the numeric coercion has left:
  nothing is derived and no relation is tested.
\<close>

theorem ci_relations_after_derivation:
  fixes df :: "'a::{plus,minus} frame"
  shows
  "(check_data to_float df estimate varlabel (Some m) None None
      addannote annoteheaders rightannote right_annoteheaders = Inr (df', w) \<and>
    estimate \<noteq> ''ll'' \<and> estimate \<noteq> ''hl'' \<and> m \<noteq> ''ll'' \<and> m \<noteq> ''hl'' \<longrightarrow>
      (\<exists>es ms lls hls.
         map_of df' estimate = Some (Numeric es) \<and> map_of df' m = Some (Numeric ms) \<and>
         map_of df' ''ll'' = Some (Numeric lls) \<and> map_of df' ''hl'' = Some (Numeric hls) \<and>
         lls = map2 (-) es ms \<and> hls = map2 (+) es ms \<and>
         (list_all2 (\<lambda>e m. e - (e - m) = m) es ms \<longrightarrow> ms = map2 (-) es lls)))
   \<and>
   (check_data to_float df estimate varlabel None (Some l) (Some h)
      addannote annoteheaders rightannote right_annoteheaders = Inr (df', w) \<and>
    estimate \<noteq> ''moerror'' \<and> l \<noteq> ''moerror'' \<longrightarrow>
      (\<exists>es lls ms.
         map_of df' estimate = Some (Numeric es) \<and> map_of df' l = Some (Numeric lls) \<and>
         map_of df' ''moerror'' = Some (Numeric ms) \<and>
         ms = map2 (-) es lls \<and>
         (list_all2 (\<lambda>e l. e - (e - l) = l) es lls \<longrightarrow> lls = map2 (-) es ms)) \<and>
      (h \<noteq> ''moerror'' \<longrightarrow>
         (\<forall>hs. map_of df h = Some (Numeric hs) \<longrightarrow> map_of df' h = Some (Numeric hs))))
   \<and>
   (check_data to_float df estimate varlabel (Some m) (Some l) (Some h)
      addannote annoteheaders rightannote right_annoteheaders = Inr (df', w) \<longrightarrow>
      coerce_all to_float df estimate (Some m) (Some l) (Some h) = Inr df')"
proof (intro conjI impI; (elim conjE)?)
  assume ok: "check_data to_float df estimate varlabel (Some m) None None
      addannote annoteheaders rightannote right_annoteheaders = Inr (df', w)"
    and ne: "estimate \<noteq> ''ll''" "estimate \<noteq> ''hl''" "m \<noteq> ''ll''" "m \<noteq> ''hl''"
  from ok obtain df1 where c: "coerce_all to_float df estimate (Some m) None None = Inr df1"
    and d: "derive df1 estimate (Some m) None None = Inr df'"
    by (rule check_data_success)
  from coerce_all_is_numeric [OF c, of estimate] obtain es
    where es: "map_of df1 estimate = Some (Numeric es)" by auto
  from coerce_all_is_numeric [OF c, of m] obtain ms
    where ms: "map_of df1 m = Some (Numeric ms)" by auto
  from d derive_moerror [OF es ms] ne
  have df': "df' = setitem (setitem df1 ''ll'' (Numeric (map2 (-) es ms))) ''hl''
                     (Numeric (map2 (+) es ms))"
    by simp
  have "map_of df' estimate = Some (Numeric es)" "map_of df' m = Some (Numeric ms)"
    "map_of df' ''ll'' = Some (Numeric (map2 (-) es ms))"
    "map_of df' ''hl'' = Some (Numeric (map2 (+) es ms))"
    using es ms ne by (simp_all add: df' map_of_setitem)
  moreover have "list_all2 (\<lambda>e m. e - (e - m) = m) es ms \<longrightarrow>
                 ms = map2 (-) es (map2 (-) es ms)"
    by (simp add: map2_minus_cancel_rows)
  ultimately show "\<exists>es ms lls hls.
         map_of df' estimate = Some (Numeric es) \<and> map_of df' m = Some (Numeric ms) \<and>
         map_of df' ''ll'' = Some (Numeric lls) \<and> map_of df' ''hl'' = Some (Numeric hls) \<and>
         lls = map2 (-) es ms \<and> hls = map2 (+) es ms \<and>
         (list_all2 (\<lambda>e m. e - (e - m) = m) es ms \<longrightarrow> ms = map2 (-) es lls)"
    by blast
next
  assume ok: "check_data to_float df estimate varlabel None (Some l) (Some h)
      addannote annoteheaders rightannote right_annoteheaders = Inr (df', w)"
    and ne: "estimate \<noteq> ''moerror''" "l \<noteq> ''moerror''"
  from ok obtain df1 where c: "coerce_all to_float df estimate None (Some l) (Some h) = Inr df1"
    and d: "derive df1 estimate None (Some l) (Some h) = Inr df'"
    by (rule check_data_success)
  from coerce_all_is_numeric [OF c, of estimate] obtain es
    where es: "map_of df1 estimate = Some (Numeric es)" by auto
  from coerce_all_is_numeric [OF c, of l] obtain lls
    where lls: "map_of df1 l = Some (Numeric lls)" by auto
  from d derive_ll_hl [OF es lls, of h]
  have df': "df' = setitem df1 ''moerror'' (Numeric (map2 (-) es lls))"
    by simp
  have "map_of df' estimate = Some (Numeric es)" "map_of df' l = Some (Numeric lls)"
    "map_of df' ''moerror'' = Some (Numeric (map2 (-) es lls))"
    using es lls ne by (simp_all add: df' map_of_setitem)
  moreover have "list_all2 (\<lambda>e l. e - (e - l) = l) es lls \<longrightarrow>
                 lls = map2 (-) es (map2 (-) es lls)"
    by (simp add: map2_minus_cancel_rows)
  ultimately show "\<exists>es lls ms.
         map_of df' estimate = Some (Numeric es) \<and> map_of df' l = Some (Numeric lls) \<and>
         map_of df' ''moerror'' = Some (Numeric ms) \<and>
         ms = map2 (-) es lls \<and>
         (list_all2 (\<lambda>e l. e - (e - l) = l) es lls \<longrightarrow> lls = map2 (-) es ms)"
    by blast
next
  assume ok: "check_data to_float df estimate varlabel None (Some l) (Some h)
      addannote annoteheaders rightannote right_annoteheaders = Inr (df', w)"
    and h: "h \<noteq> ''moerror''"
  from ok obtain df1 where c: "coerce_all to_float df estimate None (Some l) (Some h) = Inr df1"
    and d: "derive df1 estimate None (Some l) (Some h) = Inr df'"
    by (rule check_data_success)
  from coerce_all_is_numeric [OF c, of estimate] obtain es
    where es: "map_of df1 estimate = Some (Numeric es)" by auto
  from h have "map_of df' h = map_of df1 h"
    by (intro derive_other [OF d es]) simp_all
  then show "\<forall>hs. map_of df h = Some (Numeric hs) \<longrightarrow> map_of df' h = Some (Numeric hs)"
    by (simp add: coerced_from_keeps_numeric [OF coerce_all_coerced [OF c]])
next
  assume "check_data to_float df estimate varlabel (Some m) (Some l) (Some h)
      addannote annoteheaders rightannote right_annoteheaders = Inr (df', w)"
  then obtain df1 where c: "coerce_all to_float df estimate (Some m) (Some l) (Some h) = Inr df1"
    and d: "derive df1 estimate (Some m) (Some l) (Some h) = Inr df'"
    by (rule check_data_success)
  from d have "df' = df1" by (simp add: derive_nothing)
  with c show "coerce_all to_float df estimate (Some m) (Some l) (Some h) = Inr df'"
    by simp
qed

text \<open>
  The theorem on three calls. In the first the estimates are strings, and are converted;
  in the second the limits 9, 6 and 15, 10 are supplied; in the third the margin and
  the limits 0 and 5 around the estimate 1 are supplied, and returned as they are.
\<close>

theorem ci_relations_after_derivation_witness:
  "check_data (\<lambda>s. if s = ''12'' then Some 12 else if s = ''8'' then Some 8 else None)
     [(''var'', Object [''age'', ''sex'']), (''est'', Object [''12'', ''8'']),
      (''moerror'', Numeric [3, 2 :: int])]
     ''est'' ''var'' (Some ''moerror'') None None None None None None =
   Inr ([(''var'', Object [''age'', ''sex'']), (''est'', Numeric [12, 8]),
         (''moerror'', Numeric [3, 2]), (''ll'', Numeric [9, 6]), (''hl'', Numeric [15, 10])], [])
   \<and> map2 (-) [12, 8] [3, 2 :: int] = [9, 6]
   \<and> map2 (+) [12, 8] [3, 2 :: int] = [15, 10]
   \<and> map2 (-) [12, 8] [9, 6 :: int] = [3, 2]
   \<and>
   check_data Map.empty
     [(''est'', Numeric [12, 8 :: int]), (''lo'', Numeric [9, 6]), (''hi'', Numeric [15, 10])]
     ''est'' ''var'' None (Some ''lo'') (Some ''hi'') None None None None =
   Inr ([(''est'', Numeric [12, 8]), (''lo'', Numeric [9, 6]), (''hi'', Numeric [15, 10]),
         (''moerror'', Numeric [3, 2])], [])
   \<and>
   check_data Map.empty
     [(''est'', Numeric [1 :: int]), (''moe'', Numeric [1]), (''lo'', Numeric [0]),
      (''hi'', Numeric [5])]
     ''est'' ''var'' (Some ''moe'') (Some ''lo'') (Some ''hi'') None None None None =
   Inr ([(''est'', Numeric [1]), (''moe'', Numeric [1]), (''lo'', Numeric [0]),
         (''hi'', Numeric [5])], [])
   \<and>
   coerce_all Map.empty
     [(''est'', Numeric [1 :: int]), (''moe'', Numeric [1]), (''lo'', Numeric [0]),
      (''hi'', Numeric [5])]
     ''est'' (Some ''moe'') (Some ''lo'') (Some ''hi'') =
   Inr [(''est'', Numeric [1]), (''moe'', Numeric [1]), (''lo'', Numeric [0]),
        (''hi'', Numeric [5])]"
proof -
  let ?tf = "\<lambda>s. if s = ''12'' then Some 12 else if s = ''8'' then Some (8::int) else None"
  let ?dfa = "[(''var'', Object [''age'', ''sex'']), (''est'', Object [''12'', ''8'']),
               (''moerror'', Numeric [3, 2 :: int])]"
  let ?ra = "[(''var'', Object [''age'', ''sex'']), (''est'', Numeric [12, 8 :: int]),
         (''moerror'', Numeric [3, 2]), (''ll'', Numeric [9, 6]), (''hl'', Numeric [15, 10])]"
  let ?dfb = "[(''est'', Numeric [12, 8 :: int]), (''lo'', Numeric [9, 6]),
               (''hi'', Numeric [15, 10])]"
  let ?rb = "[(''est'', Numeric [12, 8 :: int]), (''lo'', Numeric [9, 6]),
              (''hi'', Numeric [15, 10]), (''moerror'', Numeric [3, 2])]"
  let ?dfc = "[(''est'', Numeric [1 :: int]), (''moe'', Numeric [1]), (''lo'', Numeric [0]),
               (''hi'', Numeric [5])]"
  have 1: "check_data ?tf ?dfa ''est'' ''var'' (Some ''moerror'') None None
             None None None None = Inr (?ra, [])"
    by (simp add: evals)
  have 2: "check_data Map.empty ?dfb ''est'' ''var'' None (Some ''lo'') (Some ''hi'')
             None None None None = Inr (?rb, [])"
    by (simp add: evals)
  have 3: "check_data Map.empty ?dfc ''est'' ''var'' (Some ''moe'') (Some ''lo'') (Some ''hi'')
             None None None None = Inr (?dfc, [])"
    by (simp add: evals)
  from ci_relations_after_derivation [THEN conjunct2, THEN conjunct2, THEN mp, OF 3]
  have 4: "coerce_all Map.empty ?dfc ''est'' (Some ''moe'') (Some ''lo'') (Some ''hi'') =
           Inr ?dfc" .
  have 5: "map2 (-) [12, 8] [3, 2 :: int] = [9, 6]" "map2 (+) [12, 8] [3, 2 :: int] = [15, 10]"
    "map2 (-) [12, 8] [9, 6 :: int] = [3, 2]"
    using ci_relations_after_derivation [THEN conjunct1, THEN mp, OF conjI [OF 1]]
      ci_relations_after_derivation [THEN conjunct2, THEN conjunct1, THEN mp, OF conjI [OF 2]]
    by simp_all
  from 1 2 3 4 5 show ?thesis by (intro conjI)
qed

section \<open>Either the margin or both limits (C3)\<close>

text \<open>
  C3 as it was stated fails where the numeric coercion, which runs first, raises: with
  \<open>moerror\<close> and \<open>hl\<close> absent and an \<open>estimate\<close> that names no column, the call fails with
  the \<^verbatim>\<open>KeyError\<close> of line 54, not with an \<^verbatim>\<open>AssertionError\<close>.
\<close>

theorem absent_estimate_preempts_ci_check:
  "check_data Map.empty [(''est'', Numeric [12 :: int])]
     ''beta'' ''var'' None (Some ''est'') None None None None None = Inl (KeyError ''beta'')"
  by (simp add: evals)

text \<open>
  C3, as amended. In a call whose numeric coercion has succeeded: if \<open>moerror\<close> is
  absent and one of \<open>ll\<close>, \<open>hl\<close> is absent, the call fails with the \<^verbatim>\<open>AssertionError\<close> whose message is
  'If "moerror" is not provided, then "ll" and "hl" must be provided.' (so with \<open>ll\<close>
  alone, or \<open>hl\<close> alone); whatever the coercion does, such a call fails. The check is
  passed exactly when \<open>moerror\<close> is supplied or both \<open>ll\<close> and \<open>hl\<close> are, and the call
  then goes on to the derivation. A call with \<open>moerror\<close> alone and no annotation
  argument succeeds.
\<close>

theorem ci_source_completeness:
  fixes df :: "'a::{plus,minus} frame"
  shows
  \<open>(coerce_all to_float df estimate moerror ll hl = Inr dfc \<and>
    moerror = None \<and> (ll = None \<or> hl = None) \<longrightarrow>
      check_data to_float df estimate varlabel moerror ll hl
        addannote annoteheaders rightannote right_annoteheaders =
      Inl (AssertionError
             ''If "moerror" is not provided, then "ll" and "hl" must be provided.''))
   \<and>
   (moerror = None \<and> (ll = None \<or> hl = None) \<longrightarrow>
      isl (check_data to_float df estimate varlabel moerror ll hl
             addannote annoteheaders rightannote right_annoteheaders))
   \<and>
   (check_ci_source moerror ll hl = Inr () \<longleftrightarrow>
      moerror \<noteq> None \<or> (ll \<noteq> None \<and> hl \<noteq> None))
   \<and>
   (coerce_all to_float df estimate moerror ll hl = Inr dfc \<and>
    (moerror \<noteq> None \<or> (ll \<noteq> None \<and> hl \<noteq> None)) \<longrightarrow>
      check_data to_float df estimate varlabel moerror ll hl
        addannote annoteheaders rightannote right_annoteheaders =
      thenE (derive dfc estimate moerror ll hl) (\<lambda>df2.
      thenE (check_annotations (columns df2) addannote annoteheaders rightannote
               right_annoteheaders)
        (\<lambda>(a, r). Inr (df2, redundancy_warnings varlabel a r))))
   \<and>
   (coerce_all to_float df estimate (Some m) None None = Inr dfc \<longrightarrow>
      (\<exists>df2. check_data to_float df estimate varlabel (Some m) None None
               None None None None = Inr (df2, [])))\<close>
proof (intro conjI impI; (elim conjE)?)
  assume c: "coerce_all to_float df estimate moerror ll hl = Inr dfc"
    and "moerror = None" "ll = None \<or> hl = None"
  then show \<open>check_data to_float df estimate varlabel moerror ll hl
        addannote annoteheaders rightannote right_annoteheaders =
      Inl (AssertionError
             ''If "moerror" is not provided, then "ll" and "hl" must be provided.'')\<close>
    by (simp add: check_data_after_coercion check_ci_source_fails msg_need_ll_hl_def)
next
  assume a: "moerror = None" "ll = None \<or> hl = None"
  show "isl (check_data to_float df estimate varlabel moerror ll hl
             addannote annoteheaders rightannote right_annoteheaders)"
  proof (cases "coerce_all to_float df estimate moerror ll hl")
    case (Inl e)
    then show ?thesis by (simp add: check_data_coercion_fails)
  next
    case (Inr dfc)
    with a show ?thesis by (simp add: check_data_after_coercion check_ci_source_fails)
  qed
next
  show "check_ci_source moerror ll hl = Inr () \<longleftrightarrow>
      moerror \<noteq> None \<or> (ll \<noteq> None \<and> hl \<noteq> None)"
    by (rule check_ci_source_iff)
next
  assume c: "coerce_all to_float df estimate moerror ll hl = Inr dfc"
    and "moerror \<noteq> None \<or> (ll \<noteq> None \<and> hl \<noteq> None)"
  then have "check_ci_source moerror ll hl = Inr ()"
    by (simp add: check_ci_source_iff)
  with c show "check_data to_float df estimate varlabel moerror ll hl
        addannote annoteheaders rightannote right_annoteheaders =
      thenE (derive dfc estimate moerror ll hl) (\<lambda>df2.
      thenE (check_annotations (columns df2) addannote annoteheaders rightannote
               right_annoteheaders)
        (\<lambda>(a, r). Inr (df2, redundancy_warnings varlabel a r)))"
    by (simp add: check_data_after_coercion)
next
  assume c: "coerce_all to_float df estimate (Some m) None None = Inr dfc"
  from coerce_all_is_numeric [OF c, of estimate] obtain es
    where es: "map_of dfc estimate = Some (Numeric es)" by auto
  from coerce_all_is_numeric [OF c, of m] obtain ms
    where ms: "map_of dfc m = Some (Numeric ms)" by auto
  have "check_ci_source (Some m) None None = Inr ()"
    by (simp add: check_ci_source_iff)
  with c derive_moerror [OF es ms]
  show "\<exists>df2. check_data to_float df estimate varlabel (Some m) None None
               None None None None = Inr (df2, [])"
    by (simp add: check_data_after_coercion check_annotations_None redundancy_warnings_None)
qed

text \<open>
  The theorem on a table with the columns est, lo, hi, moerror: \<open>ll\<close> alone and \<open>hl\<close>
  alone are refused, \<open>moerror\<close> alone is accepted.
\<close>

theorem ci_source_completeness_witness:
  \<open>check_data Map.empty
     [(''est'', Numeric [12, 8 :: int]), (''lo'', Numeric [9, 6]), (''hi'', Numeric [15, 10]),
      (''moerror'', Numeric [3, 2])]
     ''est'' ''var'' None (Some ''lo'') None None None None None =
   Inl (AssertionError ''If "moerror" is not provided, then "ll" and "hl" must be provided.'')
   \<and>
   check_data Map.empty
     [(''est'', Numeric [12, 8 :: int]), (''lo'', Numeric [9, 6]), (''hi'', Numeric [15, 10]),
      (''moerror'', Numeric [3, 2])]
     ''est'' ''var'' None None (Some ''hi'') None None None None =
   Inl (AssertionError ''If "moerror" is not provided, then "ll" and "hl" must be provided.'')
   \<and>
   (\<exists>df2. check_data Map.empty
     [(''est'', Numeric [12, 8 :: int]), (''lo'', Numeric [9, 6]), (''hi'', Numeric [15, 10]),
      (''moerror'', Numeric [3, 2])]
     ''est'' ''var'' (Some ''moerror'') None None None None None None = Inr (df2, []))\<close>
proof -
  let ?df = "[(''est'', Numeric [12, 8 :: int]), (''lo'', Numeric [9, 6]),
              (''hi'', Numeric [15, 10]), (''moerror'', Numeric [3, 2])]"
  have 1: "coerce_all Map.empty ?df ''est'' None (Some ''lo'') None = Inr ?df"
    by (simp add: coerce_all_def coerce_numeric_def getitem_def)
  have 2: "coerce_all Map.empty ?df ''est'' None None (Some ''hi'') = Inr ?df"
    by (simp add: coerce_all_def coerce_numeric_def getitem_def)
  have 3: "coerce_all Map.empty ?df ''est'' (Some ''moerror'') None None = Inr ?df"
    by (simp add: coerce_all_def coerce_numeric_def getitem_def)
  show ?thesis
    using
      ci_source_completeness [where to_float = Map.empty and df = ?df and dfc = ?df and
        estimate = "''est''" and varlabel = "''var''" and moerror = None and
        ll = "Some ''lo''" and hl = None and addannote = None and annoteheaders = None and
        rightannote = None and right_annoteheaders = None and m = "''moerror''"]
      ci_source_completeness [where to_float = Map.empty and df = ?df and dfc = ?df and
        estimate = "''est''" and varlabel = "''var''" and moerror = None and
        ll = None and hl = "Some ''hi''" and addannote = None and annoteheaders = None and
        rightannote = None and right_annoteheaders = None and m = "''moerror''"]
      1 2 3
    by simp
qed

section \<open>Numeric coercion (C4)\<close>

text \<open>
  C4 as it was stated fails where the block of an earlier field raises first: with
  strings that do not convert in both the \<open>ll\<close> and the \<open>hl\<close> column, the error names the
  lower limit, and no error names the upper limit.
\<close>

theorem earlier_field_is_named_first:
  "check_data Map.empty
     [(''est'', Numeric [12 :: int]), (''lo'', Object [''y'']), (''hi'', Object [''x''])]
     ''est'' ''var'' None (Some ''lo'') (Some ''hi'') None None None None =
   Inl (TypeError ''CI lowerlimit values should be float or int'')"
  by (simp add: evals)

text \<open>
  C4, as amended. For a column named by \<open>estimate\<close>, \<open>moerror\<close>, \<open>ll\<close> or \<open>hl\<close> that
  holds strings:
  the block of its field replaces it by the converted values if every value converts,
  and raises \<^verbatim>\<open>TypeError\<close> with the message of the field otherwise;
  a call that has reached the block of a field whose column holds a string that does
  not convert fails with the \<^verbatim>\<open>TypeError\<close> naming that field ("Estimates", "Margin of
  error values", "CI lowerlimit values", "CI higherlimit values");
  after a call that succeeds every such column is numeric, a string column among
  them having had only values that convert, and holding the converted values unless the
  derivation has assigned to its name;
  and a call in which such a column holds a string that does not convert never succeeds.
\<close>

theorem numeric_coercion:
  fixes df :: "'a::{plus,minus} frame"
  shows
  "(map_of df c = Some (Object vs) \<longrightarrow>
      coerce_numeric to_float msg df c =
        (if \<forall>v\<in>set vs. to_float v \<noteq> None
         then Inr (setitem df c (Numeric (map (the \<circ> to_float) vs)))
         else Inl (TypeError msg)))
   \<and>
   (map_of df estimate = Some (Object vs) \<and> (\<exists>v\<in>set vs. to_float v = None) \<longrightarrow>
      check_data to_float df estimate varlabel moerror ll hl
        addannote annoteheaders rightannote right_annoteheaders =
      Inl (TypeError ''Estimates should be float or int''))
   \<and>
   (coerce_numeric to_float ''Estimates should be float or int'' df estimate = Inr dfa \<and>
    moerror = Some m \<and>
    map_of dfa m = Some (Object vs) \<and> (\<exists>v\<in>set vs. to_float v = None) \<longrightarrow>
      check_data to_float df estimate varlabel moerror ll hl
        addannote annoteheaders rightannote right_annoteheaders =
      Inl (TypeError ''Margin of error values should be float or int''))
   \<and>
   (coerce_numeric to_float ''Estimates should be float or int'' df estimate = Inr dfa \<and>
    coerce_optional to_float ''Margin of error values should be float or int'' dfa moerror
      = Inr dfb \<and>
    ll = Some l \<and>
    map_of dfb l = Some (Object vs) \<and> (\<exists>v\<in>set vs. to_float v = None) \<longrightarrow>
      check_data to_float df estimate varlabel moerror ll hl
        addannote annoteheaders rightannote right_annoteheaders =
      Inl (TypeError ''CI lowerlimit values should be float or int''))
   \<and>
   (coerce_numeric to_float ''Estimates should be float or int'' df estimate = Inr dfa \<and>
    coerce_optional to_float ''Margin of error values should be float or int'' dfa moerror
      = Inr dfb \<and>
    coerce_optional to_float ''CI lowerlimit values should be float or int'' dfb ll
      = Inr dfc \<and>
    hl = Some h \<and>
    map_of dfc h = Some (Object vs) \<and> (\<exists>v\<in>set vs. to_float v = None) \<longrightarrow>
      check_data to_float df estimate varlabel moerror ll hl
        addannote annoteheaders rightannote right_annoteheaders =
      Inl (TypeError ''CI higherlimit values should be float or int''))
   \<and>
   (check_data to_float df estimate varlabel moerror ll hl
      addannote annoteheaders rightannote right_annoteheaders = Inr (df', w) \<and>
    (c = estimate \<or> moerror = Some c \<or> ll = Some c \<or> hl = Some c) \<longrightarrow>
      (\<exists>xs. map_of df' c = Some (Numeric xs)) \<and>
      (map_of df c = Some (Object vs) \<longrightarrow>
         (\<forall>v\<in>set vs. to_float v \<noteq> None) \<and>
         ((moerror = None \<longrightarrow> c \<noteq> ''moerror'') \<and> (ll = None \<longrightarrow> c \<noteq> ''ll'') \<and>
          (hl = None \<longrightarrow> c \<noteq> ''hl'') \<longrightarrow>
            map_of df' c = Some (Numeric (map (the \<circ> to_float) vs)))))
   \<and>
   ((c = estimate \<or> moerror = Some c \<or> ll = Some c \<or> hl = Some c) \<and>
    map_of df c = Some (Object vs) \<and> (\<exists>v\<in>set vs. to_float v = None) \<longrightarrow>
      isl (check_data to_float df estimate varlabel moerror ll hl
             addannote annoteheaders rightannote right_annoteheaders))"
proof (intro conjI impI; (elim conjE)?)
  assume "map_of df c = Some (Object vs)"
  then show "coerce_numeric to_float msg df c =
        (if \<forall>v\<in>set vs. to_float v \<noteq> None
         then Inr (setitem df c (Numeric (map (the \<circ> to_float) vs)))
         else Inl (TypeError msg))"
    by (rule coerce_numeric_Object)
next
  assume "map_of df estimate = Some (Object vs)" "\<exists>v\<in>set vs. to_float v = None"
  then show "check_data to_float df estimate varlabel moerror ll hl
        addannote annoteheaders rightannote right_annoteheaders =
      Inl (TypeError ''Estimates should be float or int'')"
    by (intro check_data_coercion_fails coerce_all_fails_estimate coerce_numeric_bad)
next
  assume "coerce_numeric to_float ''Estimates should be float or int'' df estimate = Inr dfa"
    "moerror = Some m" "map_of dfa m = Some (Object vs)" "\<exists>v\<in>set vs. to_float v = None"
  then show "check_data to_float df estimate varlabel moerror ll hl
        addannote annoteheaders rightannote right_annoteheaders =
      Inl (TypeError ''Margin of error values should be float or int'')"
    by (intro check_data_coercion_fails coerce_all_fails_moerror [where dfa = dfa])
       (simp_all add: coerce_numeric_bad)
next
  assume "coerce_numeric to_float ''Estimates should be float or int'' df estimate = Inr dfa"
    "coerce_optional to_float ''Margin of error values should be float or int'' dfa moerror
      = Inr dfb"
    "ll = Some l" "map_of dfb l = Some (Object vs)" "\<exists>v\<in>set vs. to_float v = None"
  then show "check_data to_float df estimate varlabel moerror ll hl
        addannote annoteheaders rightannote right_annoteheaders =
      Inl (TypeError ''CI lowerlimit values should be float or int'')"
    by (intro check_data_coercion_fails coerce_all_fails_ll [where dfa = dfa and dfb = dfb])
       (simp_all add: coerce_numeric_bad)
next
  assume "coerce_numeric to_float ''Estimates should be float or int'' df estimate = Inr dfa"
    "coerce_optional to_float ''Margin of error values should be float or int'' dfa moerror
      = Inr dfb"
    "coerce_optional to_float ''CI lowerlimit values should be float or int'' dfb ll
      = Inr dfc"
    "hl = Some h" "map_of dfc h = Some (Object vs)" "\<exists>v\<in>set vs. to_float v = None"
  then show "check_data to_float df estimate varlabel moerror ll hl
        addannote annoteheaders rightannote right_annoteheaders =
      Inl (TypeError ''CI higherlimit values should be float or int'')"
    by (intro check_data_coercion_fails
          coerce_all_fails_hl [where dfa = dfa and dfb = dfb and dfc = dfc])
       (simp_all add: coerce_numeric_bad)
next
  assume ok: "check_data to_float df estimate varlabel moerror ll hl
      addannote annoteheaders rightannote right_annoteheaders = Inr (df', w)"
    and k: "c = estimate \<or> moerror = Some c \<or> ll = Some c \<or> hl = Some c"
  from ok obtain df1 where co: "coerce_all to_float df estimate moerror ll hl = Inr df1"
    and d: "derive df1 estimate moerror ll hl = Inr df'"
    by (rule check_data_success)
  from coerce_all_is_numeric [OF co, of estimate] obtain es
    where es: "map_of df1 estimate = Some (Numeric es)" by auto
  from coerce_all_is_numeric [OF co k] obtain xs
    where xs: "map_of df1 c = Some (Numeric xs)" ..
  from derive_keeps_numeric [OF d es xs]
  show "\<exists>xs. map_of df' c = Some (Numeric xs)" .
  {
    assume o: "map_of df c = Some (Object vs)"
    from coerce_all_Object [OF co k o]
    show "\<forall>v\<in>set vs. to_float v \<noteq> None" ..
    assume "moerror = None \<longrightarrow> c \<noteq> ''moerror''" "ll = None \<longrightarrow> c \<noteq> ''ll''"
      "hl = None \<longrightarrow> c \<noteq> ''hl''"
    then have "map_of df' c = map_of df1 c"
      by (rule derive_other [OF d es])
    with coerce_all_Object [OF co k o]
    show "map_of df' c = Some (Numeric (map (the \<circ> to_float) vs))" by simp
  }
next
  assume k: "c = estimate \<or> moerror = Some c \<or> ll = Some c \<or> hl = Some c"
    and o: "map_of df c = Some (Object vs)" and bad: "\<exists>v\<in>set vs. to_float v = None"
  show "isl (check_data to_float df estimate varlabel moerror ll hl
             addannote annoteheaders rightannote right_annoteheaders)"
  proof (cases "coerce_all to_float df estimate moerror ll hl")
    case (Inl e)
    then show ?thesis by (simp add: check_data_coercion_fails)
  next
    case (Inr dfx)
    from coerce_all_Object [OF Inr k o] bad have False by blast
    then show ?thesis ..
  qed
qed

text \<open>
  The theorem on three calls, with a conversion that knows the strings "12" and "8":
  an estimate "x" and a margin "?" are refused under the name of their field, and the
  estimates "12", "8" are the numbers 12, 8 in the returned table.
\<close>

theorem numeric_coercion_witness:
  "check_data (\<lambda>s. if s = ''12'' then Some 12 else if s = ''8'' then Some (8::int) else None)
     [(''est'', Object [''12'', ''x'']), (''moe'', Numeric [3, 2])]
     ''est'' ''var'' (Some ''moe'') None None None None None None =
   Inl (TypeError ''Estimates should be float or int'')
   \<and>
   check_data (\<lambda>s. if s = ''12'' then Some 12 else if s = ''8'' then Some (8::int) else None)
     [(''est'', Object [''12'', ''8'']), (''moe'', Object [''3'', ''?''])]
     ''est'' ''var'' (Some ''moe'') None None None None None None =
   Inl (TypeError ''Margin of error values should be float or int'')
   \<and>
   check_data (\<lambda>s. if s = ''12'' then Some 12 else if s = ''8'' then Some (8::int) else None)
     [(''est'', Object [''12'', ''8'']), (''moe'', Numeric [3, 2])]
     ''est'' ''var'' (Some ''moe'') None None None None None None =
   Inr ([(''est'', Numeric [12, 8]), (''moe'', Numeric [3, 2]), (''ll'', Numeric [9, 6]),
         (''hl'', Numeric [15, 10])], [])
   \<and>
   map (the \<circ> (\<lambda>s. if s = ''12'' then Some 12 else if s = ''8'' then Some (8::int) else None))
     [''12'', ''8''] = [12, 8]"
proof -
  let ?tf = "\<lambda>s. if s = ''12'' then Some 12 else if s = ''8'' then Some (8::int) else None"
  let ?res = "[(''est'', Numeric [12, 8 :: int]), (''moe'', Numeric [3, 2]),
               (''ll'', Numeric [9, 6]), (''hl'', Numeric [15, 10])]"
  have 1: "check_data ?tf [(''est'', Object [''12'', ''x'']), (''moe'', Numeric [3, 2])]
     ''est'' ''var'' (Some ''moe'') None None None None None None =
     Inl (TypeError ''Estimates should be float or int'')"
    by (rule numeric_coercion [where vs = "[''12'', ''x'']",
          THEN conjunct2, THEN conjunct1, rule_format]) simp
  have "coerce_numeric ?tf ''Estimates should be float or int''
          [(''est'', Object [''12'', ''8'']), (''moe'', Object [''3'', ''?''])] ''est'' =
        Inr [(''est'', Numeric [12, 8]), (''moe'', Object [''3'', ''?''])]"
    by (simp add: coerce_numeric_def getitem_def setitem_def)
  then have 2: "check_data ?tf [(''est'', Object [''12'', ''8'']), (''moe'', Object [''3'', ''?''])]
     ''est'' ''var'' (Some ''moe'') None None None None None None =
     Inl (TypeError ''Margin of error values should be float or int'')"
    by (intro numeric_coercion [where vs = "[''3'', ''?'']" and m = "''moe''" and
          dfa = "[(''est'', Numeric [12, 8]), (''moe'', Object [''3'', ''?''])]",
          THEN conjunct2, THEN conjunct2, THEN conjunct1, rule_format]) simp
  have 3: "check_data ?tf [(''est'', Object [''12'', ''8'']), (''moe'', Numeric [3, 2])]
     ''est'' ''var'' (Some ''moe'') None None None None None None = Inr (?res, [])"
    by (simp add: evals)
  have "map_of ?res ''est'' = Some (Numeric (map (the \<circ> ?tf) [''12'', ''8'']))"
    by (rule numeric_coercion [where c = "''est''" and vs = "[''12'', ''8'']",
          THEN conjunct2, THEN conjunct2, THEN conjunct2, THEN conjunct2, THEN conjunct2,
          THEN conjunct1,
          rule_format, THEN conjunct2, rule_format, THEN conjunct2, rule_format, OF conjI [OF 3]])
       simp_all
  then have 4: "map (the \<circ> ?tf) [''12'', ''8''] = [12, 8]"
    by simp
  from 1 2 3 4 show ?thesis by (intro conjI)
qed

section \<open>Annotation entries must be columns or acceptable annotations (C5)\<close>



section \<open>Warnings for a variable label among the annotations (C6)\<close>

text \<open>
  C6 as it was stated fails where the variable label is an entry of both \<open>addannote\<close>
  and \<open>rightannote\<close>: the call succeeds with three warnings, neither exactly one nor two.
\<close>

theorem varlabel_on_both_sides_warns_thrice:
  "check_data Map.empty
     [(''var'', Object [''age'']), (''est'', Numeric [12 :: int]), (''moerror'', Numeric [3])]
     ''est'' ''var'' (Some ''moerror'') None None
     (Some (Seq [''var''])) None (Some (Seq [''var''])) None =
   Inr ([(''var'', Object [''age'']), (''est'', Numeric [12]), (''moerror'', Numeric [3]),
         (''ll'', Numeric [9]), (''hl'', Numeric [15])],
        [warn_addannote ''var'', warn_printed ''var'', warn_rightannote ''var''])
   \<and> length [warn_addannote ''var'', warn_printed ''var'', warn_rightannote ''var''] = 3"
  by (simp add: evals)

text \<open>
  C6, as amended. On every call that succeeds, the warnings are: one if the variable
  label is an entry of \<open>addannote\<close>, followed by two if it is an entry of \<open>rightannote\<close>;
  so one warning where it is in \<open>addannote\<close> only, two where it is in \<open>rightannote\<close> only,
  three where it is in both, none otherwise. The call succeeds, with the same table,
  whatever the variable label is: the warnings never make it fail.
\<close>

theorem redundancy_warning_count:
  fixes df :: "'a::{plus,minus} frame"
  shows
  "check_data to_float df estimate varlabel moerror ll hl
     addannote annoteheaders rightannote right_annoteheaders = Inr (df', w) \<longrightarrow>
     w = (if \<exists>xs. addannote = Some (Seq xs) \<and> varlabel \<in> set xs
          then [warn_addannote varlabel] else []) @
         (if \<exists>ys. rightannote = Some (Seq ys) \<and> varlabel \<in> set ys
          then [warn_printed varlabel, warn_rightannote varlabel] else []) \<and>
     length w =
       (if \<exists>xs. addannote = Some (Seq xs) \<and> varlabel \<in> set xs then 1 else 0) +
       (if \<exists>ys. rightannote = Some (Seq ys) \<and> varlabel \<in> set ys then 2 else 0) \<and>
     (\<forall>v. \<exists>w'. check_data to_float df estimate v moerror ll hl
                  addannote annoteheaders rightannote right_annoteheaders = Inr (df', w'))"
proof
  assume ok: "check_data to_float df estimate varlabel moerror ll hl
     addannote annoteheaders rightannote right_annoteheaders = Inr (df', w)"
  then obtain dfc a r where st: "coerce_all to_float df estimate moerror ll hl = Inr dfc"
    "check_ci_source moerror ll hl = Inr ()" "derive dfc estimate moerror ll hl = Inr df'"
    and an: "check_annotations (columns df') addannote annoteheaders rightannote
               right_annoteheaders = Inr (a, r)"
    and w: "w = redundancy_warnings varlabel a r"
    by (rule check_data_success)
  note la = check_annotations_Inr [OF an]
  have w': "w = (if \<exists>xs. addannote = Some (Seq xs) \<and> varlabel \<in> set xs
          then [warn_addannote varlabel] else []) @
         (if \<exists>ys. rightannote = Some (Seq ys) \<and> varlabel \<in> set ys
          then [warn_printed varlabel, warn_rightannote varlabel] else [])"
    unfolding w redundancy_warnings_def in_opt_list_like [OF la(1)] in_opt_list_like [OF la(2)]
    by (rule refl)
  have len: "length w =
       (if \<exists>xs. addannote = Some (Seq xs) \<and> varlabel \<in> set xs then 1 else 0) +
       (if \<exists>ys. rightannote = Some (Seq ys) \<and> varlabel \<in> set ys then 2 else 0)"
    by (subst w') simp
  have "\<exists>w'. check_data to_float df estimate v moerror ll hl
                  addannote annoteheaders rightannote right_annoteheaders = Inr (df', w')" for v
    using an by (simp add: check_data_stages [OF st])
  with w' len show "w = (if \<exists>xs. addannote = Some (Seq xs) \<and> varlabel \<in> set xs
          then [warn_addannote varlabel] else []) @
         (if \<exists>ys. rightannote = Some (Seq ys) \<and> varlabel \<in> set ys
          then [warn_printed varlabel, warn_rightannote varlabel] else []) \<and>
     length w =
       (if \<exists>xs. addannote = Some (Seq xs) \<and> varlabel \<in> set xs then 1 else 0) +
       (if \<exists>ys. rightannote = Some (Seq ys) \<and> varlabel \<in> set ys then 2 else 0) \<and>
     (\<forall>v. \<exists>w'. check_data to_float df estimate v moerror ll hl
                  addannote annoteheaders rightannote right_annoteheaders = Inr (df', w'))"
    by blast
qed

text \<open>
  The theorem on two calls: the variable label in \<open>addannote\<close> gives one warning, in
  \<open>rightannote\<close> two.
\<close>

theorem redundancy_warning_count_witness:
  "check_data Map.empty
     [(''var'', Object [''age'']), (''est'', Numeric [12 :: int]), (''moerror'', Numeric [3])]
     ''est'' ''var'' (Some ''moerror'') None None (Some (Seq [''var''])) None None None =
   Inr ([(''var'', Object [''age'']), (''est'', Numeric [12]), (''moerror'', Numeric [3]),
         (''ll'', Numeric [9]), (''hl'', Numeric [15])],
        [warn_addannote ''var''])
   \<and>
   check_data Map.empty
     [(''var'', Object [''age'']), (''est'', Numeric [12 :: int]), (''moerror'', Numeric [3])]
     ''est'' ''var'' (Some ''moerror'') None None None None (Some (Seq [''var''])) None =
   Inr ([(''var'', Object [''age'']), (''est'', Numeric [12]), (''moerror'', Numeric [3]),
         (''ll'', Numeric [9]), (''hl'', Numeric [15])],
        [warn_printed ''var'', warn_rightannote ''var''])
   \<and> length [warn_addannote ''var''] = 1
   \<and> length [warn_printed ''var'', warn_rightannote ''var''] = 2"
proof -
  let ?df = "[(''var'', Object [''age'']), (''est'', Numeric [12 :: int]),
              (''moerror'', Numeric [3])]"
  let ?dfd = "[(''var'', Object [''age'']), (''est'', Numeric [12 :: int]),
               (''moerror'', Numeric [3]), (''ll'', Numeric [9]), (''hl'', Numeric [15])]"
  have 1: "check_data Map.empty ?df ''est'' ''var'' (Some ''moerror'') None None
             (Some (Seq [''var''])) None None None = Inr (?dfd, [warn_addannote ''var''])"
    by (simp add: evals)
  have 2: "check_data Map.empty ?df ''est'' ''var'' (Some ''moerror'') None None
             None None (Some (Seq [''var''])) None =
           Inr (?dfd, [warn_printed ''var'', warn_rightannote ''var''])"
    by (simp add: evals)
  from redundancy_warning_count [THEN mp, OF 1, THEN conjunct2, THEN conjunct1]
  have 3: "length [warn_addannote ''var''] = 1" by simp
  from redundancy_warning_count [THEN mp, OF 2, THEN conjunct2, THEN conjunct1]
  have 4: "length [warn_printed ''var'', warn_rightannote ''var''] = 2" by simp
  from 1 2 3 4 show ?thesis by (intro conjI)
qed

section \<open>What a successful call changes in the table (C7)\<close>

text \<open>
  C7 as it was stated fails where the input already has a column named "ll" or "hl" and
  the argument is absent: nothing is added, and lines 107 and 109 overwrite the two
  columns (77 and 99 become 9 and 15).
\<close>

theorem derived_limits_overwrite_input_columns:
  "check_data Map.empty
     [(''est'', Numeric [12 :: int]), (''moerror'', Numeric [3]), (''ll'', Numeric [77]),
      (''hl'', Numeric [99])]
     ''est'' ''var'' (Some ''moerror'') None None None None None None =
   Inr ([(''est'', Numeric [12]), (''moerror'', Numeric [3]), (''ll'', Numeric [9]),
         (''hl'', Numeric [15])], [])"
  by (simp add: evals)

text \<open>
  C7, as amended. After a call that succeeds, the columns of the returned table are those
  of the input, in their order, followed by those of "moerror", "ll", "hl" whose argument
  was absent and which the input did not have;
  every column under another name than those of the absent arguments is as in the
  input, or is a string column named by \<open>estimate\<close>, \<open>moerror\<close>, \<open>ll\<close> or \<open>hl\<close> that now
  holds its converted values;
  with \<open>moerror\<close>, \<open>ll\<close> and \<open>hl\<close> all supplied the returned table has the columns of the
  input and is the table that the numeric coercion has left: nothing is derived;
  and in general the returned table is the table that the coercion has left with, for
  each absent argument, the assignment of its column under the fixed name, which
  appends the column where the table has none of that name and overwrites it where it
  has: "moerror" with estimate - ll, "ll" with estimate - moerror, "hl" with
  estimate + moerror (read after the assignment to "ll", if there was one).
\<close>

theorem frame_effect:
  fixes df :: "'a::{plus,minus} frame"
  shows
  "check_data to_float df estimate varlabel moerror ll hl
     addannote annoteheaders rightannote right_annoteheaders = Inr (df', w) \<longrightarrow>
     columns df' =
       columns df @ filter (\<lambda>n. n \<notin> set (columns df))
         ((if moerror = None then [''moerror''] else []) @
          (if ll = None then [''ll''] else []) @ (if hl = None then [''hl''] else [])) \<and>
     (\<forall>k. (moerror = None \<longrightarrow> k \<noteq> ''moerror'') \<and> (ll = None \<longrightarrow> k \<noteq> ''ll'') \<and>
          (hl = None \<longrightarrow> k \<noteq> ''hl'') \<longrightarrow>
          map_of df' k = map_of df k \<or>
          (k = estimate \<or> moerror = Some k \<or> ll = Some k \<or> hl = Some k) \<and>
          (\<exists>vs. map_of df k = Some (Object vs) \<and> (\<forall>v\<in>set vs. to_float v \<noteq> None) \<and>
                map_of df' k = Some (Numeric (map (the \<circ> to_float) vs)))) \<and>
     (moerror \<noteq> None \<and> ll \<noteq> None \<and> hl \<noteq> None \<longrightarrow>
        columns df' = columns df \<and>
        coerce_all to_float df estimate moerror ll hl = Inr df') \<and>
     (\<exists>dfc es. coerce_all to_float df estimate moerror ll hl = Inr dfc \<and>
             map_of dfc estimate = Some (Numeric es) \<and>
             (moerror = None \<longrightarrow>
                (\<exists>l h ls. ll = Some l \<and> hl = Some h \<and> map_of dfc l = Some (Numeric ls) \<and>
                   df' = setitem dfc ''moerror'' (Numeric (map2 (-) es ls)))) \<and>
             (moerror \<noteq> None \<and> ll = None \<and> hl \<noteq> None \<longrightarrow>
                (\<exists>m ms. moerror = Some m \<and> map_of dfc m = Some (Numeric ms) \<and>
                   df' = setitem dfc ''ll'' (Numeric (map2 (-) es ms)))) \<and>
             (moerror \<noteq> None \<and> ll \<noteq> None \<and> hl = None \<longrightarrow>
                (\<exists>m ms. moerror = Some m \<and> map_of dfc m = Some (Numeric ms) \<and>
                   df' = setitem dfc ''hl'' (Numeric (map2 (+) es ms)))) \<and>
             (moerror \<noteq> None \<and> ll = None \<and> hl = None \<longrightarrow>
                (\<exists>m ms. moerror = Some m \<and> map_of dfc m = Some (Numeric ms) \<and>
                   df' = setitem (setitem dfc ''ll'' (Numeric (map2 (-) es ms))) ''hl''
                           (Numeric (map2 (+) (if estimate = ''ll'' then map2 (-) es ms else es)
                                              (if m = ''ll'' then map2 (-) es ms else ms))))) \<and>
             (moerror \<noteq> None \<and> ll \<noteq> None \<and> hl \<noteq> None \<longrightarrow> df' = dfc))"
  (is "?ok \<longrightarrow> ?names \<and> ?others \<and> ?all \<and> ?table")
proof
  assume ok: ?ok
  from frame_effect_names [THEN mp, OF ok] have "?names \<and> ?others \<and> ?all" .
  moreover from check_data_result [OF ok] have ?table .
  ultimately show "?names \<and> ?others \<and> ?all \<and> ?table"
    by (elim conjE, intro conjI)
qed

text \<open>
  The theorem on two calls on a table with the columns var, est, moerror, lo, hi, the
  estimates being strings. With all three arguments supplied only the estimates change;
  with \<open>moerror\<close> alone the columns "ll" and "hl" follow the five of the input.
\<close>

theorem frame_effect_witness:
  "check_data (\<lambda>s. if s = ''12'' then Some (12::int) else None)
     [(''var'', Object [''age'']), (''est'', Object [''12'']), (''moerror'', Numeric [3]),
      (''lo'', Numeric [9]), (''hi'', Numeric [15])]
     ''est'' ''var'' (Some ''moerror'') (Some ''lo'') (Some ''hi'') None None None None =
   Inr ([(''var'', Object [''age'']), (''est'', Numeric [12]), (''moerror'', Numeric [3]),
         (''lo'', Numeric [9]), (''hi'', Numeric [15])], [])
   \<and>
   check_data (\<lambda>s. if s = ''12'' then Some (12::int) else None)
     [(''var'', Object [''age'']), (''est'', Object [''12'']), (''moerror'', Numeric [3]),
      (''lo'', Numeric [9]), (''hi'', Numeric [15])]
     ''est'' ''var'' (Some ''moerror'') None None None None None None =
   Inr ([(''var'', Object [''age'']), (''est'', Numeric [12]), (''moerror'', Numeric [3]),
         (''lo'', Numeric [9]), (''hi'', Numeric [15]), (''ll'', Numeric [9]),
         (''hl'', Numeric [15])], [])
   \<and>
   columns [(''var'', Object [''age'']), (''est'', Numeric [12::int]), (''moerror'', Numeric [3]),
         (''lo'', Numeric [9]), (''hi'', Numeric [15]), (''ll'', Numeric [9]),
         (''hl'', Numeric [15])] =
   columns [(''var'', Object [''age'']), (''est'', Object [''12'']),
         (''moerror'', Numeric [3::int]), (''lo'', Numeric [9]), (''hi'', Numeric [15])] @
     [''ll'', ''hl'']"
proof -
  let ?tf = "\<lambda>s. if s = ''12'' then Some (12::int) else None"
  let ?df = "[(''var'', Object [''age'']), (''est'', Object [''12'']),
              (''moerror'', Numeric [3::int]), (''lo'', Numeric [9]), (''hi'', Numeric [15])]"
  have 1: "check_data ?tf ?df ''est'' ''var'' (Some ''moerror'') (Some ''lo'') (Some ''hi'')
             None None None None =
           Inr ([(''var'', Object [''age'']), (''est'', Numeric [12]), (''moerror'', Numeric [3]),
                 (''lo'', Numeric [9]), (''hi'', Numeric [15])], [])"
    by (simp add: evals)
  have 2: "check_data ?tf ?df ''est'' ''var'' (Some ''moerror'') None None
             None None None None =
           Inr ([(''var'', Object [''age'']), (''est'', Numeric [12]), (''moerror'', Numeric [3]),
                 (''lo'', Numeric [9]), (''hi'', Numeric [15]), (''ll'', Numeric [9]),
                 (''hl'', Numeric [15])], [])"
    by (simp add: evals)
  from frame_effect [THEN mp, OF 2, THEN conjunct1]
  have 3: "columns [(''var'', Object [''age'']), (''est'', Numeric [12::int]),
         (''moerror'', Numeric [3]), (''lo'', Numeric [9]), (''hi'', Numeric [15]),
         (''ll'', Numeric [9]), (''hl'', Numeric [15])] = columns ?df @ [''ll'', ''hl'']"
    by (simp add: columns_def)
  from 1 2 3 show ?thesis by (intro conjI)
qed

section \<open>Names that \<^verbatim>\<open>load_data\<close> does not know (C8)\<close>

text \<open>
  C8 as it was stated fails for a name that is not in the list of available data and
  that \<^verbatim>\<open>load_data\<close> accepts all the same: "MORTALITY" is not the entry "mortality", and
  the data are fetched.
\<close>

theorem uppercase_name_is_fetched:
  "load_data Inr ''MORTALITY'' = ([data_url ''mortality''], Inr (data_url ''mortality''))
   \<and> ''MORTALITY'' \<notin> set available_data"
  by (simp add: load_data_def lower_def lower_char_def strip_def isspace_def
      available_data_def Let_def)

text \<open>
  C8, as amended. For every name (of code points below 256) whose lowercased and
  stripped form is not "mortality",
  \<^verbatim>\<open>load_data\<close> fetches nothing and fails with the \<^verbatim>\<open>AssertionError\<close> whose message gives
  "mortality" as the one name to choose from.
\<close>

theorem unknown_name_is_refused:
  "strip (lower name) \<noteq> ''mortality'' \<longrightarrow>
     load_data read_csv name =
       ([], Inl (AssertionError
                   (strip (lower name) @ '' not found. Should be one of '' @ [CHR 0x27] @
                    ''mortality'' @ [CHR 0x27])))"
  by (simp add: load_data_cases)

text \<open>The theorem on the name "unknown".\<close>

theorem unknown_name_is_refused_witness:
  "load_data Inr ''unknown'' =
     ([], Inl (AssertionError
                 (''unknown not found. Should be one of '' @ [CHR 0x27] @ ''mortality'' @
                  [CHR 0x27])))"
proof -
  have "strip (lower ''unknown'') = ''unknown''"
    by (simp add: lower_def lower_char_def strip_def isspace_def)
  with unknown_name_is_refused [of "''unknown''" Inr] show ?thesis
    by simp
qed

section \<open>The name is lowercased and stripped before it is looked up (C9)\<close>

text \<open>
  C9. A name (of code points below 256) that is "mortality" up to the case of its
  letters, between any leading and trailing whitespace, is fetched from the URL of
  "mortality". In general the name that
  is looked up is the lowercased and stripped one, and it is this name that the message
  of the error reports when the name is refused.
\<close>

theorem name_is_normalized:
  "(list_all isspace pre \<and> list_all isspace suf \<and> lower core = ''mortality'' \<longrightarrow>
      load_data read_csv (pre @ core @ suf) =
        ([data_url ''mortality''], read_csv (data_url ''mortality'')))
   \<and>
   load_data read_csv name =
     (if strip (lower name) \<in> set available_data
      then ([data_url (strip (lower name))], read_csv (data_url (strip (lower name))))
      else ([], Inl (AssertionError
                  (strip (lower name) @ '' not found. Should be one of '' @ [CHR 0x27] @
                   ''mortality'' @ [CHR 0x27]))))"
proof (intro conjI impI; (elim conjE)?)
  assume sp: "list_all isspace pre" "list_all isspace suf" and core: "lower core = ''mortality''"
  have "lower (pre @ core @ suf) = pre @ ''mortality'' @ suf"
    using sp core by (simp add: lower_append lower_spaces)
  moreover have "strip (pre @ ''mortality'' @ suf) = ''mortality''"
    using sp by (rule strip_padded) (simp_all add: isspace_def)
  ultimately show "load_data read_csv (pre @ core @ suf) =
        ([data_url ''mortality''], read_csv (data_url ''mortality''))"
    by (simp add: load_data_cases)
next
  show "load_data read_csv name =
     (if strip (lower name) \<in> set available_data
      then ([data_url (strip (lower name))], read_csv (data_url (strip (lower name))))
      else ([], Inl (AssertionError
                  (strip (lower name) @ '' not found. Should be one of '' @ [CHR 0x27] @
                   ''mortality'' @ [CHR 0x27]))))"
    by (simp add: load_data_def Let_def available_data_def not_found_msg_def)
qed

text \<open>
  The theorem on the name "MORTALITY " with its trailing space, on "Mortality" between
  a no-break space (U+00A0) and a next-line character (U+0085), on " Unknown", which
  the message reports as "unknown", and on the two letters U+00C0 and "B", which it
  reports as U+00E0 and "b".
\<close>

theorem name_is_normalized_witness:
  "load_data Inr ''MORTALITY '' = ([data_url ''mortality''], Inr (data_url ''mortality''))
   \<and>
   load_data Inr ([CHR 0xA0] @ ''Mortality'' @ [CHR 0x85]) =
     ([data_url ''mortality''], Inr (data_url ''mortality''))
   \<and>
   load_data Inr '' Unknown'' =
     ([], Inl (AssertionError
                 (''unknown not found. Should be one of '' @ [CHR 0x27] @ ''mortality'' @
                  [CHR 0x27])))
   \<and>
   load_data Inr [CHR 0xC0, CHR ''B''] =
     ([], Inl (AssertionError
                 ([CHR 0xE0, CHR ''b''] @ '' not found. Should be one of '' @ [CHR 0x27] @
                  ''mortality'' @ [CHR 0x27])))"
proof -
  have "lower ''MORTALITY'' = ''mortality''"
    by (simp add: lower_def lower_char_def)
  with name_is_normalized [THEN conjunct1, of "[]" "'' ''" "''MORTALITY''" Inr]
  have 1: "load_data Inr ''MORTALITY '' = ([data_url ''mortality''], Inr (data_url ''mortality''))"
    by (simp add: isspace_def)
  have "lower ''Mortality'' = ''mortality''"
    by (simp add: lower_def lower_char_def)
  with name_is_normalized [THEN conjunct1, of "[CHR 0xA0]" "[CHR 0x85]" "''Mortality''" Inr]
  have 2: "load_data Inr ([CHR 0xA0] @ ''Mortality'' @ [CHR 0x85]) =
     ([data_url ''mortality''], Inr (data_url ''mortality''))"
    by (simp add: isspace_def)
  have "strip (lower '' Unknown'') = ''unknown''"
    by (simp add: lower_def lower_char_def strip_def isspace_def)
  with name_is_normalized [THEN conjunct2, of Inr "'' Unknown''"]
  have 3: "load_data Inr '' Unknown'' =
     ([], Inl (AssertionError
                 (''unknown not found. Should be one of '' @ [CHR 0x27] @ ''mortality'' @
                  [CHR 0x27])))"
    by (simp add: available_data_def)
  have "strip (lower [CHR 0xC0, CHR ''B'']) = [CHR 0xE0, CHR ''b'']"
    by (simp add: lower_def lower_char_def strip_def isspace_def)
  with name_is_normalized [THEN conjunct2, of Inr "[CHR 0xC0, CHR ''B'']"]
  have 4: "load_data Inr [CHR 0xC0, CHR ''B''] =
     ([], Inl (AssertionError
                 ([CHR 0xE0, CHR ''b''] @ '' not found. Should be one of '' @ [CHR 0x27] @
                  ''mortality'' @ [CHR 0x27])))"
    by (simp add: available_data_def)
  from 1 2 3 4 show ?thesis by (intro conjI)
qed

section \<open>A column name that the table does not have (C10)\<close>

text \<open>
  C10 as it was stated fails where the block of an earlier argument raises first: with
  an estimate column that holds a string that does not convert and a \<open>moerror\<close> that
  names no column, the call fails with the \<^verbatim>\<open>TypeError\<close> of line 58, before the lookup of
  line 61.
\<close>

theorem type_error_preempts_key_error:
  "check_data Map.empty [(''est'', Object [''x'']) :: (string \<times> int column)]
     ''est'' ''var'' (Some ''nope'') None None None None None None =
   Inl (TypeError ''Estimates should be float or int'')"
  by (simp add: evals)

text \<open>
  C10, as amended. \<^verbatim>\<open>check_data\<close> does not test that the names passed as \<open>estimate\<close>, \<open>moerror\<close>, \<open>ll\<close>,
  \<open>hl\<close> are columns of the table. A call that names an absent column never succeeds;
  it fails in the numeric coercion, at the lookup of the first such name, with the
  \<^verbatim>\<open>KeyError\<close> of that name, which is neither a \<^verbatim>\<open>TypeError\<close> nor an \<^verbatim>\<open>AssertionError\<close>:
  for \<open>estimate\<close> at once, for \<open>moerror\<close>, \<open>ll\<close>, \<open>hl\<close> once the blocks of the arguments
  before it have passed.
\<close>

theorem missing_column_raises_key_error:
  fixes df :: "'a::{plus,minus} frame"
  shows
  "(map_of df estimate = None \<longrightarrow>
      check_data to_float df estimate varlabel moerror ll hl
        addannote annoteheaders rightannote right_annoteheaders = Inl (KeyError estimate))
   \<and>
   (coerce_numeric to_float ''Estimates should be float or int'' df estimate = Inr dfa \<and>
    moerror = Some m \<and> map_of df m = None \<longrightarrow>
      check_data to_float df estimate varlabel moerror ll hl
        addannote annoteheaders rightannote right_annoteheaders = Inl (KeyError m))
   \<and>
   (coerce_numeric to_float ''Estimates should be float or int'' df estimate = Inr dfa \<and>
    coerce_optional to_float ''Margin of error values should be float or int'' dfa moerror
      = Inr dfb \<and>
    ll = Some l \<and> map_of df l = None \<longrightarrow>
      check_data to_float df estimate varlabel moerror ll hl
        addannote annoteheaders rightannote right_annoteheaders = Inl (KeyError l))
   \<and>
   (coerce_numeric to_float ''Estimates should be float or int'' df estimate = Inr dfa \<and>
    coerce_optional to_float ''Margin of error values should be float or int'' dfa moerror
      = Inr dfb \<and>
    coerce_optional to_float ''CI lowerlimit values should be float or int'' dfb ll
      = Inr dfc \<and>
    hl = Some h \<and> map_of df h = None \<longrightarrow>
      check_data to_float df estimate varlabel moerror ll hl
        addannote annoteheaders rightannote right_annoteheaders = Inl (KeyError h))
   \<and>
   (map_of df estimate = None \<or> (\<exists>m. moerror = Some m \<and> map_of df m = None) \<or>
    (\<exists>l. ll = Some l \<and> map_of df l = None) \<or> (\<exists>h. hl = Some h \<and> map_of df h = None) \<longrightarrow>
      isl (check_data to_float df estimate varlabel moerror ll hl
             addannote annoteheaders rightannote right_annoteheaders))
   \<and>
   (\<forall>k msg. KeyError k \<noteq> TypeError msg \<and> KeyError k \<noteq> AssertionError msg)"
proof (intro conjI impI; (elim conjE)?)
  assume "map_of df estimate = None"
  then show "check_data to_float df estimate varlabel moerror ll hl
        addannote annoteheaders rightannote right_annoteheaders = Inl (KeyError estimate)"
    by (intro check_data_coercion_fails coerce_all_fails_estimate coerce_numeric_missing)
next
  assume a: "coerce_numeric to_float ''Estimates should be float or int'' df estimate = Inr dfa"
    and m: "moerror = Some m" "map_of df m = None"
  from a m(2) have "map_of dfa m = None"
    by (rule coerce_numeric_keeps_missing)
  with a m(1) show "check_data to_float df estimate varlabel moerror ll hl
        addannote annoteheaders rightannote right_annoteheaders = Inl (KeyError m)"
    by (intro check_data_coercion_fails coerce_all_fails_moerror [where dfa = dfa])
       (simp_all add: coerce_numeric_missing)
next
  assume a: "coerce_numeric to_float ''Estimates should be float or int'' df estimate = Inr dfa"
    and b: "coerce_optional to_float ''Margin of error values should be float or int'' dfa moerror
      = Inr dfb"
    and l: "ll = Some l" "map_of df l = None"
  from a l(2) have "map_of dfa l = None"
    by (rule coerce_numeric_keeps_missing)
  with b have "map_of dfb l = None"
    by (rule coerce_optional_keeps_missing)
  with a b l(1) show "check_data to_float df estimate varlabel moerror ll hl
        addannote annoteheaders rightannote right_annoteheaders = Inl (KeyError l)"
    by (intro check_data_coercion_fails coerce_all_fails_ll [where dfa = dfa and dfb = dfb])
       (simp_all add: coerce_numeric_missing)
next
  assume a: "coerce_numeric to_float ''Estimates should be float or int'' df estimate = Inr dfa"
    and b: "coerce_optional to_float ''Margin of error values should be float or int'' dfa moerror
      = Inr dfb"
    and c: "coerce_optional to_float ''CI lowerlimit values should be float or int'' dfb ll
      = Inr dfc"
    and h: "hl = Some h" "map_of df h = None"
  from a h(2) have "map_of dfa h = None"
    by (rule coerce_numeric_keeps_missing)
  with b have "map_of dfb h = None"
    by (rule coerce_optional_keeps_missing)
  with c have "map_of dfc h = None"
    by (rule coerce_optional_keeps_missing)
  with a b c h(1) show "check_data to_float df estimate varlabel moerror ll hl
        addannote annoteheaders rightannote right_annoteheaders = Inl (KeyError h)"
    by (intro check_data_coercion_fails
          coerce_all_fails_hl [where dfa = dfa and dfb = dfb and dfc = dfc])
       (simp_all add: coerce_numeric_missing)
next
  assume miss: "map_of df estimate = None \<or> (\<exists>m. moerror = Some m \<and> map_of df m = None) \<or>
    (\<exists>l. ll = Some l \<and> map_of df l = None) \<or> (\<exists>h. hl = Some h \<and> map_of df h = None)"
  show "isl (check_data to_float df estimate varlabel moerror ll hl
             addannote annoteheaders rightannote right_annoteheaders)"
  proof (cases "coerce_all to_float df estimate moerror ll hl")
    case (Inl e)
    then show ?thesis by (simp add: check_data_coercion_fails)
  next
    case (Inr dfx)
    note p = coerce_all_present [OF Inr]
    from miss p [of estimate] have False
      by (elim disjE exE conjE) (use p in blast)+
    then show ?thesis ..
  qed
next
  show "\<forall>k msg. KeyError k \<noteq> TypeError msg \<and> KeyError k \<noteq> AssertionError msg"
    by simp
qed

text \<open>
  The theorem on three calls on a table with the one column est: an absent name for
  \<open>estimate\<close>, for \<open>moerror\<close> and for \<open>hl\<close>.
\<close>

theorem missing_column_raises_key_error_witness:
  "check_data Map.empty [(''est'', Numeric [12 :: int])]
     ''beta'' ''var'' None None None None None None None = Inl (KeyError ''beta'')
   \<and>
   check_data Map.empty [(''est'', Numeric [12 :: int])]
     ''est'' ''var'' (Some ''se'') None None None None None None = Inl (KeyError ''se'')
   \<and>
   check_data Map.empty [(''est'', Numeric [12 :: int])]
     ''est'' ''var'' None (Some ''est'') (Some ''upper'') None None None None =
   Inl (KeyError ''upper'')"
proof -
  let ?df = "[(''est'', Numeric [12 :: int])]"
  have a: "coerce_numeric Map.empty ''Estimates should be float or int'' ?df ''est'' = Inr ?df"
    by (simp add: coerce_numeric_def getitem_def)
  have 1: "check_data Map.empty ?df ''beta'' ''var'' None None None None None None None =
           Inl (KeyError ''beta'')"
    by (rule missing_column_raises_key_error [THEN conjunct1, rule_format]) simp
  have 2: "check_data Map.empty ?df ''est'' ''var'' (Some ''se'') None None None None None None =
           Inl (KeyError ''se'')"
    by (rule missing_column_raises_key_error [where dfa = ?df,
          THEN conjunct2, THEN conjunct1, rule_format]) (simp add: a)
  have 3: "check_data Map.empty ?df ''est'' ''var'' None (Some ''est'') (Some ''upper'')
             None None None None = Inl (KeyError ''upper'')"
    by (rule missing_column_raises_key_error [where dfa = ?df and dfb = ?df and dfc = ?df,
          THEN conjunct2, THEN conjunct2, THEN conjunct2, THEN conjunct1, rule_format])
       (simp add: coerce_numeric_def getitem_def)
  from 1 2 3 show ?thesis by (intro conjI)
qed

end
